theory Spec2Isabelle
  imports Main "HOL-Library.Sublist"
begin

section \<open>The vanilla-extract Vite plugin (packages/vite-plugin/src/index.ts)\<close>

text \<open>
  The plugin is a closure over five variables (\<open>config\<close>, \<open>packageInfo\<close>, \<open>server\<close>,
  \<open>cssMap\<close>, \<open>virtualExt\<close>) and six hooks. The closure is a record that every hook takes
  and returns; what a hook does to the outside world (the compiler call, watch-file
  registration, module invalidation, websocket broadcast) is returned as a list of
  effects in the order the code performs them; a \<open>throw\<close> is the \<open>Inl\<close> branch of a sum.
  Strings are \<open>char list\<close>.
\<close>

subsection \<open>JavaScript string primitives the plugin calls\<close>

text \<open>\<open>s.indexOf(p)\<close>: the index of the first occurrence of \<open>p\<close> in \<open>s\<close>, or \<open>-1\<close>.\<close>

fun indexOf :: "string \<Rightarrow> string \<Rightarrow> int" where
  "indexOf [] p = (if p = [] then 0 else - 1)"
| "indexOf (c # cs) p =
     (if prefix p (c # cs) then 0
      else (let r = indexOf cs p in if r < 0 then - 1 else r + 1))"

text \<open>
  \<open>s.slice(start, end)\<close>: a negative index counts from the end of the string, both
  indices are clamped to the string, and an empty range gives the empty string.
\<close>

definition slice :: "string \<Rightarrow> int \<Rightarrow> int \<Rightarrow> string" where
  "slice s start fin =
     (let len = int (length s);
          from = (if start < 0 then max (len + start) 0 else min start len);
          to = (if fin < 0 then max (len + fin) 0 else min fin len)
      in take (nat (to - from)) (drop (nat from) s))"

text \<open>
  \<open>s.substring(start, end)\<close>: both indices are clamped to the string and swapped when
  \<open>start\<close> is the larger.
\<close>

definition substring :: "string \<Rightarrow> int \<Rightarrow> int \<Rightarrow> string" where
  "substring s start fin =
     (let len = int (length s);
          a = min (max start 0) len;
          b = min (max fin 0) len
      in take (nat (max a b - min a b)) (drop (nat (min a b)) s))"

text \<open>
  A template literal and \<open>indexOf\<close> both convert their argument with \<open>ToString\<close>; a
  variable that was never assigned reads as the text \<open>undefined\<close>.
\<close>

definition toString :: "string option \<Rightarrow> string" where
  "toString v = (case v of None \<Rightarrow> ''undefined'' | Some s \<Rightarrow> s)"

text \<open>
  \<open>JSON.stringify\<close> of a string (ECMAScript \<open>QuoteJSONString\<close>): the text between double
  quotes, with the double quote, the backslash and the control characters escaped.
\<close>

definition hexDigit :: "nat \<Rightarrow> char" where
  "hexDigit n = ''0123456789abcdef'' ! (n mod 16)"

definition quoteJSONChar :: "char \<Rightarrow> string" where
  "quoteJSONChar c =
     (let n = (of_char c :: nat) in
      if n = 8 then [CHR 0x5C, CHR ''b'']
      else if n = 9 then [CHR 0x5C, CHR ''t'']
      else if n = 10 then [CHR 0x5C, CHR ''n'']
      else if n = 12 then [CHR 0x5C, CHR ''f'']
      else if n = 13 then [CHR 0x5C, CHR ''r'']
      else if n = 34 then [CHR 0x5C, CHR 0x22]
      else if n = 92 then [CHR 0x5C, CHR 0x5C]
      else if n < 32 then [CHR 0x5C, CHR ''u'', CHR ''0'', CHR ''0'', hexDigit (n div 16), hexDigit n]
      else [c])"

definition JSON_stringify :: "string \<Rightarrow> string" where
  "JSON_stringify s = [CHR 0x22] @ concat (map quoteJSONChar s) @ [CHR 0x22]"

subsection \<open>Module constants\<close>

definition styleUpdateEvent :: "string \<Rightarrow> string" where
  "styleUpdateEvent fileId = ''vanilla-extract-style-update:'' @ fileId"

definition virtualPrefix :: string where
  "virtualPrefix = ''virtual:vanilla-extract:''"

subsection \<open>Data\<close>

text \<open>Vite's \<open>config.command\<close> is \<open>'build' | 'serve'\<close>.\<close>

datatype command = Build | Serve

record ResolvedConfig =
  command :: command
  mode :: string
  root :: string

text \<open>What \<open>getPackageInfo\<close> returns; the plugin reads \<open>dirname\<close> only.\<close>

record PackageInfo =
  name :: string
  path :: string
  dirname :: string

text \<open>
  Of the dev server the plugin uses \<open>moduleGraph.getModuleById\<close>,
  \<open>moduleGraph.invalidateModule\<close> and \<open>ws.send\<close>. The module graph is the list of the
  ids it holds a module for; invalidation and sending are effects.
\<close>

record ViteDevServer =
  moduleGraph :: "string list"

definition getModuleById :: "ViteDevServer \<Rightarrow> string \<Rightarrow> string option" where
  "getModuleById srv ident = (if ident \<in> set (moduleGraph srv) then Some ident else None)"

datatype IdentifierOption = Short | Debug

text \<open>The object handed to \<open>server.ws.send\<close>.\<close>

record CustomPayload =
  ws_type :: string
  ws_event :: string
  ws_data :: string

datatype effect =
    Compile string string
  | AddWatchFile string
  | InvalidateModule string
  | WsSend CustomPayload

text \<open>
  \<open>Error\<close> is the plugin's own \<open>throw new Error(message)\<close>, \<open>TypeError\<close> a property read
  on a variable that is still \<open>undefined\<close>, \<open>Collaborator\<close> an error thrown by an imported
  function, which the plugin lets through unchanged.
\<close>

datatype error = Error string | TypeError | Collaborator string

record plugin =
  identifiers :: "IdentifierOption option"
  config :: "ResolvedConfig option"
  packageInfo :: "PackageInfo option"
  server :: "ViteDevServer option"
  cssMap :: "string \<rightharpoonup> string"
  virtualExt :: "string option"

text \<open>The closure as \<open>vanillaExtractPlugin({ identifiers })\<close> creates it.\<close>

definition vanillaExtractPlugin :: "IdentifierOption option \<Rightarrow> plugin" where
  "vanillaExtractPlugin ids =
     \<lparr>identifiers = ids, config = None, packageInfo = None, server = None,
      cssMap = Map.empty, virtualExt = None\<rparr>"

subsection \<open>Imported functions\<close>

text \<open>
  The functions imported from \<open>@vanilla-extract/integration\<close>, \<open>path\<close> and \<open>vite\<close> are not
  part of this file; they are parameters of the model. \<open>'fs\<close> is the type \<open>FileScope\<close>.

  \<^item> \<open>relativePath from to\<close> is \<open>normalizePath(path.relative(from, to))\<close>.
  \<^item> \<open>processVanillaFile\<close> calls \<open>serializeVirtualCssPath\<close> once for each CSS fragment it
    extracts and builds its result from the import statements the callback returned:
    \<open>cssFragments\<close> gives the arguments of these calls in order, \<open>finalize\<close> the result
    (or the error thrown after the calls).
  \<^item> \<open>stringifyJSON\<close> is \<open>JSON.stringify\<close> on a \<open>FileScope\<close>.
\<close>

record 'fs integration =
  cssFileFilter :: "string \<Rightarrow> bool"
  compile :: "string \<Rightarrow> string \<Rightarrow> error + string \<times> string list"
  addFileScope :: "string \<Rightarrow> string \<Rightarrow> PackageInfo \<Rightarrow> error + string"
  getPackageInfo :: "string \<Rightarrow> PackageInfo"
  relativePath :: "string \<Rightarrow> string \<Rightarrow> string"
  stringifyFileScope :: "'fs \<Rightarrow> string"
  parseFileScope :: "string \<Rightarrow> error + 'fs"
  stringifyJSON :: "'fs \<Rightarrow> string"
  cssFragments :: "string \<Rightarrow> string \<Rightarrow> IdentifierOption \<Rightarrow> ('fs \<times> string) list"
  finalize :: "string \<Rightarrow> string \<Rightarrow> IdentifierOption \<Rightarrow> string list \<Rightarrow> error + string"

subsection \<open>Hooks\<close>

definition configureServer :: "plugin \<Rightarrow> ViteDevServer \<Rightarrow> plugin" where
  "configureServer st srv = st\<lparr>server := Some srv\<rparr>"

text \<open>
  \<open>config(_userConfig, env)\<close> returns \<open>optimizeDeps.include\<close> and \<open>ssr.external\<close> and
  touches no variable of the closure.
\<close>

definition config_hook :: "command \<Rightarrow> string list \<times> string list" where
  "config_hook cmd =
     (let include = (if cmd = Serve then [''@vanilla-extract/css/injectStyles''] else [])
      in (include,
          [''@vanilla-extract/css'', ''@vanilla-extract/css/fileScope'',
           ''@vanilla-extract/css/adapter'']))"

definition configResolved :: "'fs integration \<Rightarrow> plugin \<Rightarrow> ResolvedConfig \<Rightarrow> plugin" where
  "configResolved env st resolvedConfig =
     st\<lparr>config := Some resolvedConfig,
        virtualExt := Some (''.vanilla.'' @ (if command resolvedConfig = Serve then ''js'' else ''css'')),
        packageInfo := Some (getPackageInfo env (root resolvedConfig))\<rparr>"

text \<open>\<open>None\<close> is the hook returning \<open>undefined\<close>: the id is left to other resolvers.\<close>

definition resolveId :: "string \<Rightarrow> string option" where
  "resolveId ident = (if indexOf ident virtualPrefix = 0 then Some ident else None)"

text \<open>
  The module text \<open>load\<close> returns while a dev server is attached: the template literal
  after \<open>outdent\<close> has removed the first line break, the ten columns of indentation and
  the last line break with the indentation of the closing backquote. The three
  interpolated values are inserted as they are.
\<close>

definition injectModule :: "string \<Rightarrow> string \<Rightarrow> string \<Rightarrow> string" where
  "injectModule fileScopeJSON cssJSON event =
     ''import { injectStyles } from '' @ [CHR 0x27] @ ''@vanilla-extract/css/injectStyles''
        @ [CHR 0x27] @ '';'' @ [CHR 0x0A]
     @ [CHR 0x0A]
     @ ''const inject = (css) => injectStyles({'' @ [CHR 0x0A]
     @ ''  fileScope: '' @ fileScopeJSON @ '','' @ [CHR 0x0A]
     @ ''  css'' @ [CHR 0x0A]
     @ ''});'' @ [CHR 0x0A]
     @ [CHR 0x0A]
     @ ''inject('' @ cssJSON @ '');'' @ [CHR 0x0A]
     @ [CHR 0x0A]
     @ ''import.meta.hot.on('' @ [CHR 0x27] @ event @ [CHR 0x27] @ '', (css) => {'' @ [CHR 0x0A]
     @ ''  inject(css);'' @ [CHR 0x0A]
     @ ''});   ''"

text \<open>
  The scope id \<open>load\<close> cuts out of a module id:
  \<open>id.slice(virtualPrefix.length, id.indexOf(virtualExt))\<close>.
\<close>

definition fileScopeIdOf :: "plugin \<Rightarrow> string \<Rightarrow> string" where
  "fileScopeIdOf st ident =
     slice ident (int (length virtualPrefix)) (indexOf ident (toString (virtualExt st)))"

text \<open>\<open>Inr None\<close> is the hook returning \<open>null\<close>.\<close>

definition load :: "'fs integration \<Rightarrow> plugin \<Rightarrow> string \<Rightarrow> error + string option" where
  "load env st ident =
     (if indexOf ident virtualPrefix = 0 then
        (let fileScopeId = fileScopeIdOf st ident
         in case cssMap st fileScopeId of
              None \<Rightarrow> Inl (Error (''Unable to locate '' @ fileScopeId @ '' in the CSS map.''))
            | Some css \<Rightarrow>
                (case server st of
                   None \<Rightarrow> Inr (Some css)
                 | Some srv \<Rightarrow>
                     (case parseFileScope env fileScopeId of
                        Inl e \<Rightarrow> Inl e
                      | Inr fileScope \<Rightarrow>
                          Inr (Some (injectModule (stringifyJSON env fileScope)
                                       (JSON_stringify css) (styleUpdateEvent fileScopeId))))))
      else Inr None)"

text \<open>
  The callback handed to \<open>processVanillaFile\<close>: it returns the closure with the registry
  updated, the effects on the dev server, and the import statement.
\<close>

definition serializeVirtualCssPath ::
  "'fs integration \<Rightarrow> plugin \<Rightarrow> 'fs \<times> string \<Rightarrow> plugin \<times> effect list \<times> string" where
  "serializeVirtualCssPath env st arg =
     (case arg of (fileScope, source) \<Rightarrow>
        (let fileId = stringifyFileScope env fileScope;
             ident = virtualPrefix @ fileId @ toString (virtualExt st);
             effs =
               (case server st of
                  None \<Rightarrow> []
                | Some srv \<Rightarrow>
                    (case cssMap st fileId of
                       None \<Rightarrow> []
                     | Some old \<Rightarrow>
                         if old \<noteq> source then
                           (case getModuleById srv ident of
                              None \<Rightarrow> []
                            | Some m \<Rightarrow> [InvalidateModule m])
                           @ [WsSend \<lparr>ws_type = ''custom'', ws_event = styleUpdateEvent fileId,
                                      ws_data = source\<rparr>]
                         else []))
         in (st\<lparr>cssMap := (cssMap st)(fileId \<mapsto> source)\<rparr>, effs,
             ''import '' @ [CHR 0x22] @ ident @ [CHR 0x22] @ '';'')))"

text \<open>The calls \<open>processVanillaFile\<close> makes to the callback, one fragment after the other.\<close>

fun serializeAll ::
  "'fs integration \<Rightarrow> plugin \<Rightarrow> ('fs \<times> string) list \<Rightarrow> plugin \<times> effect list \<times> string list" where
  "serializeAll env st [] = (st, [], [])"
| "serializeAll env st (frag # frags) =
     (case serializeVirtualCssPath env st frag of (st1, effs1, imp) \<Rightarrow>
        (case serializeAll env st1 frags of (st2, effs2, imps) \<Rightarrow>
           (st2, effs1 @ effs2, imp # imps)))"

text \<open>The \<open>for\<close> loop over \<open>watchFiles\<close>.\<close>

fun watchLoop :: "ResolvedConfig \<Rightarrow> string \<Rightarrow> string list \<Rightarrow> effect list" where
  "watchLoop cfg ident [] = []"
| "watchLoop cfg ident (file # files) =
     (if command cfg = Build \<or> file \<noteq> ident
      then AddWatchFile file # watchLoop cfg ident files
      else watchLoop cfg ident files)"

text \<open>The module id without its query: \<open>index === -1 ? id : id.substring(0, index)\<close>.\<close>

definition validIdOf :: "string \<Rightarrow> string" where
  "validIdOf ident =
     (let index = indexOf ident ''?''
      in if index = - 1 then ident else substring ident 0 index)"

text \<open>\<open>identifiers ?? (config.mode === 'production' ? 'short' : 'debug')\<close>.\<close>

definition identOptionOf :: "plugin \<Rightarrow> ResolvedConfig \<Rightarrow> IdentifierOption" where
  "identOptionOf st cfg =
     (case identifiers st of
        Some opt \<Rightarrow> opt
      | None \<Rightarrow> if mode cfg = ''production'' then Short else Debug)"

text \<open>
  \<open>transform\<close> is asynchronous, and its one suspension point is the awaited \<open>compile\<close>.
  Before it the hook reads \<open>config.root\<close> only, and \<open>config\<close> is assigned once; the
  registry and the server are read and written after it, without another suspension.
  The hook is therefore one step on the closure. \<open>Inr None\<close> is the result \<open>null\<close>; the
  effect \<open>Compile filePath cwd\<close> records the call of the compiler.
\<close>

definition transform ::
  "'fs integration \<Rightarrow> plugin \<Rightarrow> string \<Rightarrow> string \<Rightarrow> bool \<Rightarrow> plugin \<times> effect list \<times> (error + string option)" where
  "transform env st code ident ssr =
     (if \<not> cssFileFilter env ident then (st, [], Inr None)
      else
        (let validId = validIdOf ident
         in if ssr then
              (case packageInfo st of
                 None \<Rightarrow> (st, [], Inl TypeError)
               | Some pkg \<Rightarrow>
                   (st, [], map_sum id Some (addFileScope env code (relativePath env (dirname pkg) validId) pkg)))
            else
              (case config st of
                 None \<Rightarrow> (st, [], Inl TypeError)
               | Some cfg \<Rightarrow>
                   (case compile env validId (root cfg) of
                      Inl e \<Rightarrow> (st, [Compile validId (root cfg)], Inl e)
                    | Inr (source, watchFiles) \<Rightarrow>
                        (let identOption = identOptionOf st cfg
                         in case serializeAll env st (cssFragments env source validId identOption) of
                              (st', effs, imports) \<Rightarrow>
                                (st',
                                 [Compile validId (root cfg)] @ watchLoop cfg ident watchFiles @ effs,
                                 map_sum id Some (finalize env source validId identOption imports)))))))"

subsection \<open>The plugin's lifetime\<close>

text \<open>One call of a hook by the bundler, and the closure after a sequence of calls.\<close>

datatype hook =
    ConfigureServer ViteDevServer
  | Config command
  | ConfigResolved ResolvedConfig
  | ResolveId string
  | Load string
  | Transform string string bool

fun runHook :: "'fs integration \<Rightarrow> plugin \<Rightarrow> hook \<Rightarrow> plugin" where
  "runHook env st (ConfigureServer srv) = configureServer st srv"
| "runHook env st (Config cmd) = st"
| "runHook env st (ConfigResolved cfg) = configResolved env st cfg"
| "runHook env st (ResolveId ident) = st"
| "runHook env st (Load ident) = st"
| "runHook env st (Transform code ident ssr) = fst (transform env st code ident ssr)"

fun runHooks :: "'fs integration \<Rightarrow> plugin \<Rightarrow> hook list \<Rightarrow> plugin" where
  "runHooks env st [] = st"
| "runHooks env st (h # hs) = runHooks env (runHook env st h) hs"

subsection \<open>Notions the specification uses\<close>

text \<open>
  The position of the first occurrence of \<open>p\<close> in \<open>s\<close>, by search over all positions;
  \<open>None\<close> when \<open>p\<close> does not occur.
\<close>

definition firstOccurrence :: "string \<Rightarrow> string \<Rightarrow> nat option" where
  "firstOccurrence p s = find (\<lambda>k. prefix p (drop k s)) [0 ..< Suc (length s)]"

text \<open>
  The scope id of a module id as the specification words it: the text between the end
  of the prefix and the first occurrence of the extension, or, when the extension does
  not occur, what follows the prefix without its last character.
\<close>

definition specFileScopeId :: "string \<Rightarrow> string \<Rightarrow> string" where
  "specFileScopeId ext ident =
     (let rest = drop (length virtualPrefix) ident
      in case firstOccurrence ext ident of
           Some k \<Rightarrow> take (k - length virtualPrefix) rest
         | None \<Rightarrow> butlast rest)"

text \<open>The lines of a text: the pieces between its line breaks.\<close>

fun splitLines :: "string \<Rightarrow> string list" where
  "splitLines [] = [[]]"
| "splitLines (c # cs) =
     (if c = CHR 0x0A then [] # splitLines cs
      else (case splitLines cs of [] \<Rightarrow> [[c]] | l # ls \<Rightarrow> (c # l) # ls))"

subsection \<open>A concrete setting\<close>

text \<open>
  A project with one style file \<open>src/a.css.ts\<close> that imports \<open>src/vars.css.ts\<close>; the
  compiler extracts one fragment, whose CSS text \<open>css\<close> stands for the file's content at
  the time of the compile. A \<open>FileScope\<close> is its file path here.
\<close>

definition exampleIntegration :: "string \<Rightarrow> string integration" where
  "exampleIntegration css =
     \<lparr>cssFileFilter = (\<lambda>ident. ident \<in> set [''src/a.css.ts'', ''src/a.css.ts?used'']),
      compile = (\<lambda>filePath cwd.
         if filePath = ''src/a.css.ts''
         then Inr (''export const a = 1;'', [''src/a.css.ts'', ''src/vars.css.ts''])
         else Inl (Collaborator ''no such file'')),
      addFileScope = (\<lambda>code filePath pkg. Inr (''setFileScope();'' @ code)),
      getPackageInfo = (\<lambda>dir. \<lparr>name = ''app'', path = dir @ ''/package.json'', dirname = dir\<rparr>),
      relativePath = (\<lambda>from to. to),
      stringifyFileScope = (\<lambda>fileScope. fileScope),
      parseFileScope = (\<lambda>fileScopeId. Inr fileScopeId),
      stringifyJSON = (\<lambda>fileScope. ''{'' @ JSON_stringify ''filePath'' @ '':'' @ JSON_stringify fileScope @ ''}''),
      cssFragments = (\<lambda>source filePath opt. [(filePath, css)]),
      finalize = (\<lambda>source filePath opt imports. Inr (concat imports @ source))\<rparr>"

definition serveConfig :: ResolvedConfig where
  "serveConfig = \<lparr>command = Serve, mode = ''development'', root = ''/app''\<rparr>"

definition buildConfig :: ResolvedConfig where
  "buildConfig = \<lparr>command = Build, mode = ''production'', root = ''/app''\<rparr>"

definition devServer :: ViteDevServer where
  "devServer = \<lparr>moduleGraph = [''virtual:vanilla-extract:src/a.css.ts.vanilla.js'']\<rparr>"

text \<open>
  The closure of a dev session after \<open>src/a.css.ts\<close> was compiled once with the CSS
  \<open>.a{color:red}\<close>, and of a build after the same compile.
\<close>

definition devSession :: plugin where
  "devSession =
     runHooks (exampleIntegration ''.a{color:red}'') (vanillaExtractPlugin None)
       [ConfigResolved serveConfig, ConfigureServer devServer,
        Transform ''source text'' ''src/a.css.ts'' False]"

definition buildSession :: plugin where
  "buildSession =
     runHooks (exampleIntegration ''.a{color:red}'') (vanillaExtractPlugin None)
       [ConfigResolved buildConfig, Transform ''source text'' ''src/a.css.ts'' False]"

text \<open>
  The module id the specification gives for a scope: the prefix, the scope id, and \<open>.js\<close>
  while a dev server is attached, \<open>.css\<close> otherwise.
\<close>

definition specVirtualId :: "plugin \<Rightarrow> string \<Rightarrow> string" where
  "specVirtualId st f = virtualPrefix @ f @ (if server st \<noteq> None then ''.js'' else ''.css'')"

text \<open>
  What a list of effects did: the messages sent to the client, the modules invalidated,
  the files registered for watching.
\<close>

fun watched :: "effect list \<Rightarrow> string list" where
  "watched [] = []"
| "watched (AddWatchFile file # es) = file # watched es"
| "watched (e # es) = watched es"

fun broadcasts :: "effect list \<Rightarrow> CustomPayload list" where
  "broadcasts [] = []"
| "broadcasts (WsSend p # es) = p # broadcasts es"
| "broadcasts (e # es) = broadcasts es"

fun invalidations :: "effect list \<Rightarrow> string list" where
  "invalidations [] = []"
| "invalidations (InvalidateModule m # es) = m # invalidations es"
| "invalidations (e # es) = invalidations es"

subsection \<open>Reading the module that load returns\<close>

text \<open>
  The module for the dev server is JavaScript text, and its subscription names the event
  in a string literal between single quotes. \<open>singleQuoted\<close> reads such a literal from
  the text behind its opening quote (ECMAScript \<open>StringLiteral\<close>): the characters up to
  the next single quote are its value, and \<open>Closed value rest\<close> gives the value and the
  text behind the closing quote. A line break before the closing quote, or the end of
  the text, leaves the literal \<open>Unterminated\<close>, which is a syntax error. A backslash
  starts an escape sequence; escape sequences are not read here (\<open>Unread\<close>).
\<close>

datatype literal = Closed string string | Unterminated | Unread

fun singleQuoted :: "string \<Rightarrow> literal" where
  "singleQuoted [] = Unterminated"
| "singleQuoted (c # cs) =
     (if c = CHR 0x27 then Closed [] cs
      else if c = CHR 0x0A \<or> c = CHR 0x0D then Unterminated
      else if c = CHR 0x5C then Unread
      else (case singleQuoted cs of Closed v rest \<Rightarrow> Closed (c # v) rest | r \<Rightarrow> r))"

text \<open>A text that a literal between single quotes denotes as it stands.\<close>

definition literalSafe :: "string \<Rightarrow> bool" where
  "literalSafe s = list_all (\<lambda>c. c \<notin> set [CHR 0x27, CHR 0x5C, CHR 0x0A, CHR 0x0D]) s"

text \<open>
  The template of \<open>load\<close> in two parts: the lines before the subscription, and what
  follows the event name and its closing quote.
\<close>

definition injectModuleHead :: "string \<Rightarrow> string \<Rightarrow> string" where
  "injectModuleHead fileScopeJSON cssJSON =
     ''import { injectStyles } from '' @ [CHR 0x27] @ ''@vanilla-extract/css/injectStyles''
        @ [CHR 0x27] @ '';'' @ [CHR 0x0A]
     @ [CHR 0x0A]
     @ ''const inject = (css) => injectStyles({'' @ [CHR 0x0A]
     @ ''  fileScope: '' @ fileScopeJSON @ '','' @ [CHR 0x0A]
     @ ''  css'' @ [CHR 0x0A]
     @ ''});'' @ [CHR 0x0A]
     @ [CHR 0x0A]
     @ ''inject('' @ cssJSON @ '');'' @ [CHR 0x0A]
     @ [CHR 0x0A]"

definition subscriptionTail :: string where
  "subscriptionTail = '', (css) => {'' @ [CHR 0x0A] @ ''  inject(css);'' @ [CHR 0x0A] @ ''});   ''"

text \<open>
  A project whose style file lies in a directory with an apostrophe in its name,
  \<open>src/it's/a.css.ts\<close>, and its dev session after the first compile of that file.
\<close>

definition quotePath :: string where
  "quotePath = ''src/it'' @ [CHR 0x27] @ ''s/a.css.ts''"

definition quoteIntegration :: "string \<Rightarrow> string integration" where
  "quoteIntegration css =
     (exampleIntegration css)
       \<lparr>cssFileFilter := (\<lambda>ident. ident = quotePath),
        compile := (\<lambda>filePath cwd.
          if filePath = quotePath then Inr (''export const a = 1;'', [quotePath])
          else Inl (Collaborator ''no such file''))\<rparr>"

definition quoteSession :: plugin where
  "quoteSession =
     runHooks (quoteIntegration ''.a{color:red}'') (vanillaExtractPlugin None)
       [ConfigResolved serveConfig, ConfigureServer devServer,
        Transform ''source text'' quotePath False]"

section \<open>Properties\<close>

subsection \<open>Strings\<close>

lemma of_char_newline: "(of_char c :: nat) = 10 \<longleftrightarrow> c = CHR 0x0A"
proof -
  have "(of_char (CHR 0x0A) :: nat) = 10" by simp
  then show ?thesis by (metis of_char_eq_iff)
qed

lemma hexDigit_not_newline: "hexDigit n \<noteq> CHR 0x0A"
proof -
  have "hexDigit n \<in> set ''0123456789abcdef''"
    unfolding hexDigit_def by (rule nth_mem) simp
  then show ?thesis by auto
qed

lemma quoteJSONChar_no_newline: "CHR 0x0A \<notin> set (quoteJSONChar c)"
  using hexDigit_not_newline[of "of_char c div 16"] hexDigit_not_newline[of "of_char c"]
  by (auto simp: quoteJSONChar_def Let_def of_char_newline)

lemma JSON_stringify_no_newline: "CHR 0x0A \<notin> set (JSON_stringify s)"
  by (auto simp: JSON_stringify_def quoteJSONChar_no_newline)

lemma find_map_Suc: "find P (map Suc xs) = map_option Suc (find (P \<circ> Suc) xs)"
  by (induction xs) auto

lemma indexOf_lower_bound: "- 1 \<le> indexOf s p"
  by (induction s) (auto simp: Let_def)

text \<open>\<open>indexOf\<close> finds the first occurrence.\<close>

lemma firstOccurrence_Cons:
  "firstOccurrence p (c # cs) =
     (if prefix p (c # cs) then Some 0 else map_option Suc (firstOccurrence p cs))"
proof -
  have "[0 ..< Suc (length (c # cs))] = 0 # map Suc [0 ..< Suc (length cs)]"
    by (simp add: map_Suc_upt upt_conv_Cons del: upt_Suc)
  then show ?thesis
    by (simp add: firstOccurrence_def find_map_Suc comp_def del: upt_Suc)
qed

lemma indexOf_firstOccurrence:
  "indexOf s p = (case firstOccurrence p s of None \<Rightarrow> - 1 | Some k \<Rightarrow> int k)"
proof (induction s)
  case Nil
  then show ?case by (simp add: firstOccurrence_def)
next
  case (Cons c cs)
  then show ?case
    by (auto simp: firstOccurrence_Cons Let_def split: option.splits)
qed

lemma indexOf_zero_iff: "indexOf s p = 0 \<longleftrightarrow> prefix p s"
  by (cases s) (auto simp: Let_def indexOf_lower_bound)

subsection \<open>The concrete setting, evaluated\<close>

lemmas example_defs = exampleIntegration_def serveConfig_def buildConfig_def devServer_def
  vanillaExtractPlugin_def configResolved_def configureServer_def transform_def
  serializeVirtualCssPath_def substring_def toString_def virtualPrefix_def getModuleById_def
  styleUpdateEvent_def validIdOf_def identOptionOf_def Let_def

lemma devSession_eq:
  "devSession =
     \<lparr>identifiers = None, config = Some serveConfig,
      packageInfo = Some \<lparr>name = ''app'', path = ''/app/package.json'', dirname = ''/app''\<rparr>,
      server = Some devServer,
      cssMap = [''src/a.css.ts'' \<mapsto> ''.a{color:red}''],
      virtualExt = Some ''.vanilla.js''\<rparr>"
  by (simp add: devSession_def example_defs)

lemma buildSession_eq:
  "buildSession =
     \<lparr>identifiers = None, config = Some buildConfig,
      packageInfo = Some \<lparr>name = ''app'', path = ''/app/package.json'', dirname = ''/app''\<rparr>,
      server = None,
      cssMap = [''src/a.css.ts'' \<mapsto> ''.a{color:red}''],
      virtualExt = Some ''.vanilla.css''\<rparr>"
  by (simp add: buildSession_def example_defs)

subsection \<open>resolveId\<close>

text \<open>
  Claim C7. For every module id, \<open>resolveId\<close> returns the id unchanged if and only if the
  id starts with the reserved prefix \<open>virtual:vanilla-extract:\<close>; for every other id it
  returns "not handled" (\<open>undefined\<close>, here \<open>None\<close>).
\<close>

theorem resolveId_iff_prefix:
  "resolveId ident = (if prefix virtualPrefix ident then Some ident else None)"
  by (simp add: resolveId_def indexOf_zero_iff)

theorem resolveId_iff_prefix_witness:
  "resolveId ''virtual:vanilla-extract:src/a.css.ts.vanilla.css''
     = Some ''virtual:vanilla-extract:src/a.css.ts.vanilla.css''
   \<and> resolveId ''src/virtual:vanilla-extract:a.css'' = None"
  using resolveId_iff_prefix [of "''virtual:vanilla-extract:src/a.css.ts.vanilla.css''"]
    resolveId_iff_prefix [of "''src/virtual:vanilla-extract:a.css''"]
  by (simp add: virtualPrefix_def)

subsection \<open>transform on a file that is not a style file\<close>

text \<open>
  Claim C9. For every id that the style-file filter \<open>cssFileFilter\<close> does not match,
  \<open>transform\<close> returns \<open>null\<close> and leaves the registry and every other variable of the
  plugin as they were: the closure is returned unchanged and the list of effects is
  empty (no compiler call, no watch registration, no registry write).
\<close>

theorem transform_other_file:
  "\<not> cssFileFilter env ident \<Longrightarrow> transform env st code ident ssr = (st, [], Inr None)"
  by (simp add: transform_def)

theorem transform_other_file_witness:
  "\<not> cssFileFilter (exampleIntegration ''.a{color:blue}'') ''src/main.ts''
   \<and> transform (exampleIntegration ''.a{color:blue}'') devSession ''code'' ''src/main.ts'' False
       = (devSession, [], Inr None)"
proof -
  have h: "\<not> cssFileFilter (exampleIntegration ''.a{color:blue}'') ''src/main.ts''"
    by (simp add: exampleIntegration_def)
  from transform_other_file [OF h] h show ?thesis by simp
qed

subsection \<open>load on a scope that was never registered\<close>

text \<open>
  Claim C3. For every id that begins with the reserved prefix and whose extracted scope
  id has no entry in the registry, \<open>load\<close> throws: the result is the error with the
  message \<open>Unable to locate <scope id> in the CSS map.\<close>, never \<open>null\<close>, \<open>undefined\<close> or
  a text.
\<close>

theorem load_unregistered_scope:
  "prefix virtualPrefix ident \<Longrightarrow> cssMap st (fileScopeIdOf st ident) = None \<Longrightarrow>
   load env st ident =
     Inl (Error (''Unable to locate '' @ fileScopeIdOf st ident @ '' in the CSS map.''))"
  by (simp add: load_def indexOf_zero_iff)

theorem load_unregistered_scope_witness:
  "prefix virtualPrefix ''virtual:vanilla-extract:src/b.css.ts.vanilla.js''
   \<and> cssMap devSession (fileScopeIdOf devSession ''virtual:vanilla-extract:src/b.css.ts.vanilla.js'') = None
   \<and> load (exampleIntegration ''.a{color:red}'') devSession
        ''virtual:vanilla-extract:src/b.css.ts.vanilla.js''
       = Inl (Error ''Unable to locate src/b.css.ts in the CSS map.'')"
proof -
  let ?id = "''virtual:vanilla-extract:src/b.css.ts.vanilla.js''"
  have f: "fileScopeIdOf devSession ?id = ''src/b.css.ts''"
    by (simp add: devSession_eq fileScopeIdOf_def slice_def virtualPrefix_def toString_def)
  have h1: "prefix virtualPrefix ?id" by (simp add: virtualPrefix_def)
  have h2: "cssMap devSession (fileScopeIdOf devSession ?id) = None"
    by (simp add: f) (simp add: devSession_eq)
  from load_unregistered_scope [OF h1 h2, of "exampleIntegration ''.a{color:red}''"] h1 h2
  show ?thesis by (simp add: f)
qed

subsection \<open>The lines of the module for the dev server\<close>

lemma splitLines_nonempty: "splitLines s \<noteq> []"
  by (induction s) (auto split: list.splits)

lemma splitLines_append:
  "CHR 0x0A \<notin> set l \<Longrightarrow>
   splitLines (l @ rest) = (l @ hd (splitLines rest)) # tl (splitLines rest)"
  using splitLines_nonempty[of rest]
  by (induction l) (auto split: list.splits)

lemma splitLines_injectModuleHead:
  assumes "CHR 0x0A \<notin> set fileScopeJSON" "CHR 0x0A \<notin> set cssJSON"
  shows "splitLines (injectModuleHead fileScopeJSON cssJSON) =
     [''import { injectStyles } from '' @ [CHR 0x27] @ ''@vanilla-extract/css/injectStyles'' @ [CHR 0x27] @ '';'',
      [],
      ''const inject = (css) => injectStyles({'',
      ''  fileScope: '' @ fileScopeJSON @ '','',
      ''  css'',
      ''});'',
      [],
      ''inject('' @ cssJSON @ '');'',
      [],
      []]"
  using assms by (simp add: injectModuleHead_def splitLines_append)

subsection \<open>Hot updates on recompile\<close>

text \<open>
  Claim C1. For each CSS fragment handed to the callback \<open>serializeVirtualCssPath\<close>, with
  scope id \<open>f\<close>: the hot-update broadcast carrying the new CSS text is sent exactly once,
  and the module of the scope's virtual id is invalidated exactly once when the module
  graph holds it, if and only if a dev server is attached and the registry holds an
  entry for \<open>f\<close> whose text differs from the new one. On the first registration of \<open>f\<close>,
  when the stored text equals the new one, or without a dev server, the callback has no
  effect on the server at all.
\<close>

theorem hmr_fires_iff_changed:
  "let f = stringifyFileScope env fileScope;
       vid = virtualPrefix @ f @ toString (virtualExt st);
       changed = (server st \<noteq> None \<and> cssMap st f \<noteq> None \<and> cssMap st f \<noteq> Some source);
       cached = (\<exists>srv. server st = Some srv \<and> getModuleById srv vid \<noteq> None);
       effs = fst (snd (serializeVirtualCssPath env st (fileScope, source)))
   in broadcasts effs =
        (if changed
         then [\<lparr>ws_type = ''custom'', ws_event = styleUpdateEvent f, ws_data = source\<rparr>]
         else [])
    \<and> invalidations effs = (if changed \<and> cached then [vid] else [])
    \<and> (\<not> changed \<longrightarrow> effs = [])"
  by (auto simp: serializeVirtualCssPath_def Let_def getModuleById_def split: option.splits)

theorem hmr_fires_iff_changed_witness:
  "(let effs = fst (snd (serializeVirtualCssPath (exampleIntegration ''.a{color:blue}'') devSession
                          (''src/a.css.ts'', ''.a{color:blue}'')))
    in broadcasts effs =
         [\<lparr>ws_type = ''custom'', ws_event = ''vanilla-extract-style-update:src/a.css.ts'',
           ws_data = ''.a{color:blue}''\<rparr>]
     \<and> invalidations effs = [''virtual:vanilla-extract:src/a.css.ts.vanilla.js''])
   \<and> cssMap devSession ''src/a.css.ts'' = Some ''.a{color:red}''
   \<and> fst (snd (serializeVirtualCssPath (exampleIntegration ''.a{color:red}'') devSession
                  (''src/a.css.ts'', ''.a{color:red}''))) = []
   \<and> cssMap devSession ''src/b.css.ts'' = None
   \<and> fst (snd (serializeVirtualCssPath (exampleIntegration ''.b{}'') devSession
                  (''src/b.css.ts'', ''.b{}''))) = []"
  using hmr_fires_iff_changed [of "exampleIntegration ''.a{color:blue}''" "''src/a.css.ts''"
      devSession "''.a{color:blue}''"]
    hmr_fires_iff_changed [of "exampleIntegration ''.a{color:red}''" "''src/a.css.ts''"
      devSession "''.a{color:red}''"]
    hmr_fires_iff_changed [of "exampleIntegration ''.b{}''" "''src/b.css.ts''"
      devSession "''.b{}''"]
  by (simp add: devSession_eq example_defs)

subsection \<open>load on a registered scope\<close>

lemma load_registered:
  assumes "prefix virtualPrefix ident" and "cssMap st (fileScopeIdOf st ident) = Some css"
  shows "load env st ident =
     (case server st of
        None \<Rightarrow> Inr (Some css)
      | Some srv \<Rightarrow>
          (case parseFileScope env (fileScopeIdOf st ident) of
             Inl e \<Rightarrow> Inl e
           | Inr fileScope \<Rightarrow>
               Inr (Some (injectModule (stringifyJSON env fileScope) (JSON_stringify css)
                            (styleUpdateEvent (fileScopeIdOf st ident))))))"
  using assms by (simp add: load_def indexOf_zero_iff Let_def)

lemma injectModule_split:
  "injectModule fileScopeJSON cssJSON event =
     injectModuleHead fileScopeJSON cssJSON
     @ ''import.meta.hot.on('' @ [CHR 0x27] @ event @ [CHR 0x27] @ subscriptionTail"
  by (simp add: injectModule_def injectModuleHead_def subscriptionTail_def)

lemma load_module:
  assumes "prefix virtualPrefix ident" and "cssMap st (fileScopeIdOf st ident) = Some css"
    and "server st \<noteq> None" and "parseFileScope env (fileScopeIdOf st ident) = Inr fs"
  shows "load env st ident =
     Inr (Some (injectModuleHead (stringifyJSON env fs) (JSON_stringify css)
                @ ''import.meta.hot.on('' @ [CHR 0x27] @ styleUpdateEvent (fileScopeIdOf st ident)
                @ [CHR 0x27] @ subscriptionTail))"
  using assms by (auto simp: load_registered injectModule_split)

lemma singleQuoted_safe:
  "literalSafe a \<Longrightarrow> singleQuoted (a @ CHR 0x27 # rest) = Closed a rest"
  by (induction a) (auto simp: literalSafe_def)

lemma literalSafe_styleUpdateEvent:
  "literalSafe a \<Longrightarrow> literalSafe (styleUpdateEvent a)"
  by (simp add: literalSafe_def styleUpdateEvent_def)

lemma singleQuoted_event_safe:
  assumes "literalSafe f"
  shows "singleQuoted (styleUpdateEvent f @ CHR 0x27 # rest) = Closed (styleUpdateEvent f) rest"
  by (rule singleQuoted_safe [OF literalSafe_styleUpdateEvent [OF assms]])

lemma singleQuoted_event_quote:
  assumes "literalSafe a"
  shows "singleQuoted (styleUpdateEvent (a @ CHR 0x27 # b) @ CHR 0x27 # rest)
           = Closed (styleUpdateEvent a) (b @ CHR 0x27 # rest)"
  using singleQuoted_safe [OF literalSafe_styleUpdateEvent [OF assms], of "b @ CHR 0x27 # rest"]
  by (simp add: styleUpdateEvent_def)

lemma JSON_stringify_example:
  "JSON_stringify ''.a{color:red}'' = [CHR 0x22] @ ''.a{color:red}'' @ [CHR 0x22]"
  by (simp add: JSON_stringify_def quoteJSONChar_def)

lemma JSON_stringify_example2:
  "JSON_stringify (''a'' @ [CHR 0x22, CHR 0x0A, CHR 0x5C, CHR 0x1F] @ ''b'')
     = [CHR 0x22] @ ''a'' @ [CHR 0x5C, CHR 0x22, CHR 0x5C, CHR ''n'', CHR 0x5C, CHR 0x5C,
          CHR 0x5C] @ ''u001f'' @ ''b'' @ [CHR 0x22]"
  by (simp add: JSON_stringify_def quoteJSONChar_def hexDigit_def)

lemma literalSafe_example: "literalSafe ''src/it''" "literalSafe ''src/a.css.ts''"
  by (simp_all add: literalSafe_def)

lemma quotePath_split: "quotePath = ''src/it'' @ CHR 0x27 # ''s/a.css.ts''"
  by (simp add: quotePath_def)

lemma styleUpdateEvent_example:
  "styleUpdateEvent ''src/it'' = ''vanilla-extract-style-update:src/it''"
  "styleUpdateEvent ''src/a.css.ts'' = ''vanilla-extract-style-update:src/a.css.ts''"
  by (simp_all add: styleUpdateEvent_def)

lemma quoteSession_eq:
  "quoteSession =
     \<lparr>identifiers = None, config = Some serveConfig,
      packageInfo = Some \<lparr>name = ''app'', path = ''/app/package.json'', dirname = ''/app''\<rparr>,
      server = Some devServer,
      cssMap = [quotePath \<mapsto> ''.a{color:red}''],
      virtualExt = Some ''.vanilla.js''\<rparr>"
  by (simp add: quoteSession_def quoteIntegration_def quotePath_def example_defs)

lemma fileScopeIdOf_quote:
  "fileScopeIdOf quoteSession (virtualPrefix @ quotePath @ ''.vanilla.js'') = quotePath"
  by (simp add: quoteSession_eq fileScopeIdOf_def slice_def virtualPrefix_def toString_def quotePath_def)

text \<open>
  Claim C2. For every id that starts with the reserved prefix and whose scope id has an
  entry in the registry: without a dev server \<open>load\<close> returns exactly the stored CSS
  text. With a dev server (and a scope id that \<open>parseFileScope\<close> accepts) it returns the
  template: a head whose only line that starts a call of \<open>inject\<close> is
  \<open>inject(<the stored CSS as JSON>);\<close>, and behind it the statement that begins
  \<open>import.meta.hot.on('\<close>. The scope id is pasted behind that quote as it stands. When it
  has no single quote, backslash or line break, the literal reads as the scope's event
  \<open>vanilla-extract-style-update:<scope id>\<close> and the handler that calls \<open>inject(css)\<close>
  follows. When it has a single quote, the literal closes at that quote: its value is
  not the scope's event, and the rest of the scope id stands where the handler should.
\<close>

theorem load_raw_css_or_module:
  assumes "prefix virtualPrefix ident" and "cssMap st (fileScopeIdOf st ident) = Some css"
  shows "(server st = None \<longrightarrow> load env st ident = Inr (Some css))
    \<and> (server st \<noteq> None \<and> parseFileScope env (fileScopeIdOf st ident) = Inr fs
       \<longrightarrow> (\<exists>statement.
              load env st ident =
                Inr (Some (injectModuleHead (stringifyJSON env fs) (JSON_stringify css) @ statement))
            \<and> prefix (''import.meta.hot.on('' @ [CHR 0x27]) statement
            \<and> (CHR 0x0A \<notin> set (stringifyJSON env fs)
                 \<longrightarrow> filter (prefix ''inject('')
                       (splitLines (injectModuleHead (stringifyJSON env fs) (JSON_stringify css)))
                     = [''inject('' @ JSON_stringify css @ '');''])
            \<and> (literalSafe (fileScopeIdOf st ident)
                 \<longrightarrow> singleQuoted (drop 20 statement)
                     = Closed (styleUpdateEvent (fileScopeIdOf st ident)) subscriptionTail)
            \<and> (\<forall>a b. fileScopeIdOf st ident = a @ CHR 0x27 # b \<and> literalSafe a
                 \<longrightarrow> singleQuoted (drop 20 statement)
                     = Closed (styleUpdateEvent a) (b @ [CHR 0x27] @ subscriptionTail))))"
proof (intro conjI impI)
  assume "server st = None"
  then show "load env st ident = Inr (Some css)"
    by (simp add: load_registered [OF assms])
next
  let ?f = "fileScopeIdOf st ident"
  let ?head = "injectModuleHead (stringifyJSON env fs) (JSON_stringify css)"
  let ?statement = "''import.meta.hot.on('' @ [CHR 0x27] @ styleUpdateEvent ?f @ [CHR 0x27]
      @ subscriptionTail"
  assume a: "server st \<noteq> None \<and> parseFileScope env ?f = Inr fs"
  then have l: "load env st ident = Inr (Some (?head @ ?statement))"
    by (intro load_module [OF assms]) simp_all
  have p: "prefix (''import.meta.hot.on('' @ [CHR 0x27]) ?statement" by simp
  have d: "drop 20 ?statement = styleUpdateEvent ?f @ [CHR 0x27] @ subscriptionTail" by simp
  have i: "CHR 0x0A \<notin> set (stringifyJSON env fs)
      \<longrightarrow> filter (prefix ''inject('') (splitLines ?head) = [''inject('' @ JSON_stringify css @ '');'']"
    by (simp add: splitLines_injectModuleHead JSON_stringify_no_newline)
  have s: "literalSafe ?f \<longrightarrow> singleQuoted (drop 20 ?statement) = Closed (styleUpdateEvent ?f) subscriptionTail"
    unfolding d by (simp add: singleQuoted_event_safe)
  have q: "\<forall>a b. ?f = a @ CHR 0x27 # b \<and> literalSafe a
      \<longrightarrow> singleQuoted (drop 20 ?statement) = Closed (styleUpdateEvent a) (b @ [CHR 0x27] @ subscriptionTail)"
    unfolding d using singleQuoted_event_quote by auto
  from l p i s q
  show "\<exists>statement.
              load env st ident = Inr (Some (?head @ statement))
            \<and> prefix (''import.meta.hot.on('' @ [CHR 0x27]) statement
            \<and> (CHR 0x0A \<notin> set (stringifyJSON env fs)
                 \<longrightarrow> filter (prefix ''inject('') (splitLines ?head)
                     = [''inject('' @ JSON_stringify css @ '');''])
            \<and> (literalSafe ?f
                 \<longrightarrow> singleQuoted (drop 20 statement) = Closed (styleUpdateEvent ?f) subscriptionTail)
            \<and> (\<forall>a b. ?f = a @ CHR 0x27 # b \<and> literalSafe a
                 \<longrightarrow> singleQuoted (drop 20 statement)
                     = Closed (styleUpdateEvent a) (b @ [CHR 0x27] @ subscriptionTail))"
    by (intro exI [of _ ?statement] conjI) simp_all
qed

theorem load_raw_css_or_module_witness:
  "prefix virtualPrefix ''virtual:vanilla-extract:src/a.css.ts.vanilla.css''
   \<and> cssMap buildSession
        (fileScopeIdOf buildSession ''virtual:vanilla-extract:src/a.css.ts.vanilla.css'')
       = Some ''.a{color:red}''
   \<and> server buildSession = None
   \<and> load (exampleIntegration ''.a{color:red}'') buildSession
        ''virtual:vanilla-extract:src/a.css.ts.vanilla.css'' = Inr (Some ''.a{color:red}'')
   \<and> prefix virtualPrefix ''virtual:vanilla-extract:src/a.css.ts.vanilla.js''
   \<and> cssMap devSession
        (fileScopeIdOf devSession ''virtual:vanilla-extract:src/a.css.ts.vanilla.js'')
       = Some ''.a{color:red}''
   \<and> server devSession \<noteq> None
   \<and> parseFileScope (exampleIntegration ''.a{color:red}'')
        (fileScopeIdOf devSession ''virtual:vanilla-extract:src/a.css.ts.vanilla.js'')
       = Inr ''src/a.css.ts''
   \<and> CHR 0x0A \<notin> set (stringifyJSON (exampleIntegration ''.a{color:red}'') ''src/a.css.ts'')
   \<and> literalSafe (fileScopeIdOf devSession ''virtual:vanilla-extract:src/a.css.ts.vanilla.js'')
   \<and> (\<exists>statement.
          load (exampleIntegration ''.a{color:red}'') devSession
            ''virtual:vanilla-extract:src/a.css.ts.vanilla.js''
            = Inr (Some (injectModuleHead
                           (stringifyJSON (exampleIntegration ''.a{color:red}'') ''src/a.css.ts'')
                           (JSON_stringify ''.a{color:red}'') @ statement))
        \<and> prefix (''import.meta.hot.on('' @ [CHR 0x27]) statement
        \<and> filter (prefix ''inject('')
              (splitLines (injectModuleHead
                 (stringifyJSON (exampleIntegration ''.a{color:red}'') ''src/a.css.ts'')
                 (JSON_stringify ''.a{color:red}'')))
            = [''inject('' @ [CHR 0x22] @ ''.a{color:red}'' @ [CHR 0x22] @ '');'']
        \<and> singleQuoted (drop 20 statement)
            = Closed ''vanilla-extract-style-update:src/a.css.ts'' subscriptionTail)
   \<and> prefix virtualPrefix (virtualPrefix @ quotePath @ ''.vanilla.js'')
   \<and> cssMap quoteSession (fileScopeIdOf quoteSession (virtualPrefix @ quotePath @ ''.vanilla.js''))
       = Some ''.a{color:red}''
   \<and> server quoteSession \<noteq> None
   \<and> parseFileScope (quoteIntegration ''.a{color:red}'')
        (fileScopeIdOf quoteSession (virtualPrefix @ quotePath @ ''.vanilla.js''))
       = Inr quotePath
   \<and> fileScopeIdOf quoteSession (virtualPrefix @ quotePath @ ''.vanilla.js'')
       = ''src/it'' @ CHR 0x27 # ''s/a.css.ts''
   \<and> literalSafe ''src/it''
   \<and> (\<exists>statement.
          load (quoteIntegration ''.a{color:red}'') quoteSession
            (virtualPrefix @ quotePath @ ''.vanilla.js'')
            = Inr (Some (injectModuleHead
                           (stringifyJSON (quoteIntegration ''.a{color:red}'') quotePath)
                           (JSON_stringify ''.a{color:red}'') @ statement))
        \<and> prefix (''import.meta.hot.on('' @ [CHR 0x27]) statement
        \<and> singleQuoted (drop 20 statement)
            = Closed ''vanilla-extract-style-update:src/it''
                (''s/a.css.ts'' @ [CHR 0x27] @ subscriptionTail))"
proof -
  let ?env = "exampleIntegration ''.a{color:red}''"
  let ?envQ = "quoteIntegration ''.a{color:red}''"
  let ?idB = "''virtual:vanilla-extract:src/a.css.ts.vanilla.css''"
  let ?idD = "''virtual:vanilla-extract:src/a.css.ts.vanilla.js''"
  let ?idQ = "virtualPrefix @ quotePath @ ''.vanilla.js''"
  have fB: "fileScopeIdOf buildSession ?idB = ''src/a.css.ts''"
    by (simp add: buildSession_eq fileScopeIdOf_def slice_def virtualPrefix_def toString_def)
  have fD: "fileScopeIdOf devSession ?idD = ''src/a.css.ts''"
    by (simp add: devSession_eq fileScopeIdOf_def slice_def virtualPrefix_def toString_def)
  note fQ = fileScopeIdOf_quote
  have b1: "prefix virtualPrefix ?idB" by (simp add: virtualPrefix_def)
  have b2: "cssMap buildSession (fileScopeIdOf buildSession ?idB) = Some ''.a{color:red}''"
    by (simp add: fB) (simp add: buildSession_eq)
  have b3: "server buildSession = None" by (simp add: buildSession_eq)
  from load_raw_css_or_module [OF b1 b2, where env = ?env, THEN conjunct1, THEN mp, OF b3]
  have rb: "load ?env buildSession ?idB = Inr (Some ''.a{color:red}'')" .
  have d1: "prefix virtualPrefix ?idD" by (simp add: virtualPrefix_def)
  have d2: "cssMap devSession (fileScopeIdOf devSession ?idD) = Some ''.a{color:red}''"
    by (simp add: fD) (simp add: devSession_eq)
  have d3: "server devSession \<noteq> None" by (simp add: devSession_eq)
  have d4: "parseFileScope ?env (fileScopeIdOf devSession ?idD) = Inr ''src/a.css.ts''"
    by (simp add: fD) (simp add: exampleIntegration_def)
  have d5: "CHR 0x0A \<notin> set (stringifyJSON ?env ''src/a.css.ts'')"
    by (simp add: exampleIntegration_def JSON_stringify_no_newline)
  have d6: "literalSafe (fileScopeIdOf devSession ?idD)"
    by (simp add: fD literalSafe_example)
  have D: "server devSession \<noteq> None
      \<and> parseFileScope ?env (fileScopeIdOf devSession ?idD) = Inr ''src/a.css.ts''"
    using d3 d4 by (intro conjI)
  from load_raw_css_or_module [OF d1 d2, where env = ?env and fs = "''src/a.css.ts''",
      THEN conjunct2, THEN mp, OF D]
  obtain stD where tD:
      "load ?env devSession ?idD
         = Inr (Some (injectModuleHead (stringifyJSON ?env ''src/a.css.ts'')
                        (JSON_stringify ''.a{color:red}'') @ stD))"
      "prefix (''import.meta.hot.on('' @ [CHR 0x27]) stD"
      "CHR 0x0A \<notin> set (stringifyJSON ?env ''src/a.css.ts'')
         \<longrightarrow> filter (prefix ''inject('')
               (splitLines (injectModuleHead (stringifyJSON ?env ''src/a.css.ts'')
                  (JSON_stringify ''.a{color:red}'')))
             = [''inject('' @ JSON_stringify ''.a{color:red}'' @ '');'']"
      "literalSafe (fileScopeIdOf devSession ?idD)
         \<longrightarrow> singleQuoted (drop 20 stD)
             = Closed (styleUpdateEvent (fileScopeIdOf devSession ?idD)) subscriptionTail"
    by (elim exE conjE)
  from tD(3) d5 have iD: "filter (prefix ''inject('')
               (splitLines (injectModuleHead (stringifyJSON ?env ''src/a.css.ts'')
                  (JSON_stringify ''.a{color:red}'')))
             = [''inject('' @ [CHR 0x22] @ ''.a{color:red}'' @ [CHR 0x22] @ '');'']"
    by (simp add: JSON_stringify_example)
  from tD(4) d6 have sD: "singleQuoted (drop 20 stD)
      = Closed ''vanilla-extract-style-update:src/a.css.ts'' subscriptionTail"
    by (simp add: fD styleUpdateEvent_example)
  have eD: "\<exists>statement.
          load ?env devSession ?idD
            = Inr (Some (injectModuleHead (stringifyJSON ?env ''src/a.css.ts'')
                           (JSON_stringify ''.a{color:red}'') @ statement))
        \<and> prefix (''import.meta.hot.on('' @ [CHR 0x27]) statement
        \<and> filter (prefix ''inject('')
              (splitLines (injectModuleHead (stringifyJSON ?env ''src/a.css.ts'')
                 (JSON_stringify ''.a{color:red}'')))
            = [''inject('' @ [CHR 0x22] @ ''.a{color:red}'' @ [CHR 0x22] @ '');'']
        \<and> singleQuoted (drop 20 statement)
            = Closed ''vanilla-extract-style-update:src/a.css.ts'' subscriptionTail"
    using tD(1,2) iD sD by (intro exI [of _ stD] conjI)
  have q1: "prefix virtualPrefix ?idQ" by simp
  have q2: "cssMap quoteSession (fileScopeIdOf quoteSession ?idQ) = Some ''.a{color:red}''"
    by (simp add: fQ) (simp add: quoteSession_eq)
  have q3: "server quoteSession \<noteq> None" by (simp add: quoteSession_eq)
  have q4: "parseFileScope ?envQ (fileScopeIdOf quoteSession ?idQ) = Inr quotePath"
    by (simp add: fQ) (simp add: quoteIntegration_def exampleIntegration_def)
  have q5: "fileScopeIdOf quoteSession ?idQ = ''src/it'' @ CHR 0x27 # ''s/a.css.ts''"
    using fQ quotePath_split by (rule trans)
  have Q: "server quoteSession \<noteq> None
      \<and> parseFileScope ?envQ (fileScopeIdOf quoteSession ?idQ) = Inr quotePath"
    using q3 q4 by (intro conjI)
  from load_raw_css_or_module [OF q1 q2, where env = ?envQ and fs = quotePath,
      THEN conjunct2, THEN mp, OF Q]
  obtain stQ where tQ:
      "load ?envQ quoteSession ?idQ
         = Inr (Some (injectModuleHead (stringifyJSON ?envQ quotePath)
                        (JSON_stringify ''.a{color:red}'') @ stQ))"
      "prefix (''import.meta.hot.on('' @ [CHR 0x27]) stQ"
      "\<forall>a b. fileScopeIdOf quoteSession ?idQ = a @ CHR 0x27 # b \<and> literalSafe a
         \<longrightarrow> singleQuoted (drop 20 stQ)
             = Closed (styleUpdateEvent a) (b @ [CHR 0x27] @ subscriptionTail)"
    by (elim exE conjE)
  from tQ(3) [rule_format, of "''src/it''" "''s/a.css.ts''"] q5 literalSafe_example(1)
  have sQ: "singleQuoted (drop 20 stQ)
      = Closed ''vanilla-extract-style-update:src/it'' (''s/a.css.ts'' @ [CHR 0x27] @ subscriptionTail)"
    by (simp add: styleUpdateEvent_example)
  have eQ: "\<exists>statement.
          load ?envQ quoteSession ?idQ
            = Inr (Some (injectModuleHead (stringifyJSON ?envQ quotePath)
                           (JSON_stringify ''.a{color:red}'') @ statement))
        \<and> prefix (''import.meta.hot.on('' @ [CHR 0x27]) statement
        \<and> singleQuoted (drop 20 statement)
            = Closed ''vanilla-extract-style-update:src/it''
                (''s/a.css.ts'' @ [CHR 0x27] @ subscriptionTail)"
    using tQ(1,2) sQ by (intro exI [of _ stQ] conjI)
  from b1 b2 b3 rb d1 d2 d3 d4 d5 d6 eD q1 q2 q3 q4 q5 literalSafe_example(1) eQ
  show ?thesis by (intro conjI)
qed

subsection \<open>The hot-update event\<close>

lemma set_singleton: "xs \<noteq> [] \<Longrightarrow> \<forall>x \<in> set xs. x = y \<Longrightarrow> set xs = {y}"
  by (cases xs) auto

text \<open>
  Claim C6. Every broadcast the callback sends for a scope with id \<open>f\<close> is the message
  \<open>{type: 'custom', event: 'vanilla-extract-style-update:<f>', data: <new CSS text>}\<close>.
  The module \<open>load\<close> returns while a dev server is attached names the event in the
  literal behind \<open>import.meta.hot.on('\<close>, where the scope id stands unescaped. For a
  scope id without single quote, backslash and line break the literal denotes exactly
  the event of the broadcast. For a scope id with a single quote the literal denotes
  \<open>vanilla-extract-style-update:\<close> and the scope id up to that quote, which is another
  name than the one the broadcast carries.
\<close>

theorem subscription_name_unescaped:
  "(\<forall>p \<in> set (broadcasts (fst (snd (serializeVirtualCssPath env st (fileScope, source))))).
      p = \<lparr>ws_type = ''custom'',
           ws_event = ''vanilla-extract-style-update:'' @ stringifyFileScope env fileScope,
           ws_data = source\<rparr>)
   \<and> (prefix virtualPrefix ident \<and> cssMap st (fileScopeIdOf st ident) = Some css
        \<and> server st \<noteq> None \<and> parseFileScope env (fileScopeIdOf st ident) = Inr fs
      \<longrightarrow> load env st ident =
            Inr (Some (injectModuleHead (stringifyJSON env fs) (JSON_stringify css)
                       @ ''import.meta.hot.on('' @ [CHR 0x27]
                       @ ''vanilla-extract-style-update:'' @ fileScopeIdOf st ident
                       @ [CHR 0x27] @ subscriptionTail))
          \<and> (literalSafe (fileScopeIdOf st ident)
               \<longrightarrow> singleQuoted (''vanilla-extract-style-update:'' @ fileScopeIdOf st ident
                                  @ [CHR 0x27] @ subscriptionTail)
                   = Closed (''vanilla-extract-style-update:'' @ fileScopeIdOf st ident)
                       subscriptionTail)
          \<and> (\<forall>a b. fileScopeIdOf st ident = a @ CHR 0x27 # b \<and> literalSafe a
               \<longrightarrow> singleQuoted (''vanilla-extract-style-update:'' @ fileScopeIdOf st ident
                                  @ [CHR 0x27] @ subscriptionTail)
                     = Closed (''vanilla-extract-style-update:'' @ a) (b @ [CHR 0x27] @ subscriptionTail)
                   \<and> ''vanilla-extract-style-update:'' @ a
                       \<noteq> ''vanilla-extract-style-update:'' @ fileScopeIdOf st ident))"
proof (intro conjI impI allI)
  show "\<forall>p \<in> set (broadcasts (fst (snd (serializeVirtualCssPath env st (fileScope, source))))).
      p = \<lparr>ws_type = ''custom'',
           ws_event = ''vanilla-extract-style-update:'' @ stringifyFileScope env fileScope,
           ws_data = source\<rparr>"
    by (auto simp: serializeVirtualCssPath_def Let_def styleUpdateEvent_def
        split: option.splits if_splits)
next
  assume "prefix virtualPrefix ident \<and> cssMap st (fileScopeIdOf st ident) = Some css
        \<and> server st \<noteq> None \<and> parseFileScope env (fileScopeIdOf st ident) = Inr fs"
  then show "load env st ident =
            Inr (Some (injectModuleHead (stringifyJSON env fs) (JSON_stringify css)
                       @ ''import.meta.hot.on('' @ [CHR 0x27]
                       @ ''vanilla-extract-style-update:'' @ fileScopeIdOf st ident
                       @ [CHR 0x27] @ subscriptionTail))"
    using load_module [of ident st css env fs] by (simp add: styleUpdateEvent_def)
next
  assume "literalSafe (fileScopeIdOf st ident)"
  then show "singleQuoted (''vanilla-extract-style-update:'' @ fileScopeIdOf st ident
                                  @ [CHR 0x27] @ subscriptionTail)
                   = Closed (''vanilla-extract-style-update:'' @ fileScopeIdOf st ident)
                       subscriptionTail"
    using singleQuoted_event_safe [of "fileScopeIdOf st ident" subscriptionTail]
    by (simp add: styleUpdateEvent_def)
next
  fix a b
  assume "fileScopeIdOf st ident = a @ CHR 0x27 # b \<and> literalSafe a"
  then show "singleQuoted (''vanilla-extract-style-update:'' @ fileScopeIdOf st ident
                                  @ [CHR 0x27] @ subscriptionTail)
                     = Closed (''vanilla-extract-style-update:'' @ a) (b @ [CHR 0x27] @ subscriptionTail)"
    using singleQuoted_event_quote [of a b subscriptionTail]
    by (simp add: styleUpdateEvent_def)
next
  fix a b
  assume "fileScopeIdOf st ident = a @ CHR 0x27 # b \<and> literalSafe a"
  then show "''vanilla-extract-style-update:'' @ a
      \<noteq> ''vanilla-extract-style-update:'' @ fileScopeIdOf st ident"
    by simp
qed

theorem subscription_name_unescaped_witness:
  "set (broadcasts (fst (snd (serializeVirtualCssPath (quoteIntegration ''.a{color:blue}'')
       quoteSession (quotePath, ''.a{color:blue}'')))))
     = {\<lparr>ws_type = ''custom'', ws_event = ''vanilla-extract-style-update:'' @ quotePath,
         ws_data = ''.a{color:blue}''\<rparr>}
   \<and> prefix virtualPrefix (virtualPrefix @ quotePath @ ''.vanilla.js'')
   \<and> cssMap quoteSession (fileScopeIdOf quoteSession (virtualPrefix @ quotePath @ ''.vanilla.js''))
       = Some ''.a{color:red}''
   \<and> server quoteSession \<noteq> None
   \<and> parseFileScope (quoteIntegration ''.a{color:blue}'')
        (fileScopeIdOf quoteSession (virtualPrefix @ quotePath @ ''.vanilla.js''))
       = Inr quotePath
   \<and> fileScopeIdOf quoteSession (virtualPrefix @ quotePath @ ''.vanilla.js'')
       = ''src/it'' @ CHR 0x27 # ''s/a.css.ts''
   \<and> literalSafe ''src/it''
   \<and> load (quoteIntegration ''.a{color:blue}'') quoteSession
        (virtualPrefix @ quotePath @ ''.vanilla.js'')
       = Inr (Some (injectModuleHead (stringifyJSON (quoteIntegration ''.a{color:blue}'') quotePath)
                      (JSON_stringify ''.a{color:red}'')
                    @ ''import.meta.hot.on('' @ [CHR 0x27]
                    @ ''vanilla-extract-style-update:'' @ quotePath
                    @ [CHR 0x27] @ subscriptionTail))
   \<and> singleQuoted (''vanilla-extract-style-update:'' @ quotePath @ [CHR 0x27] @ subscriptionTail)
       = Closed ''vanilla-extract-style-update:src/it''
           (''s/a.css.ts'' @ [CHR 0x27] @ subscriptionTail)
   \<and> ''vanilla-extract-style-update:src/it'' \<noteq> ''vanilla-extract-style-update:'' @ quotePath
   \<and> literalSafe (fileScopeIdOf devSession ''virtual:vanilla-extract:src/a.css.ts.vanilla.js'')
   \<and> singleQuoted (''vanilla-extract-style-update:''
         @ fileScopeIdOf devSession ''virtual:vanilla-extract:src/a.css.ts.vanilla.js''
         @ [CHR 0x27] @ subscriptionTail)
       = Closed ''vanilla-extract-style-update:src/a.css.ts'' subscriptionTail"
proof -
  let ?envQ = "quoteIntegration ''.a{color:blue}''"
  let ?env = "exampleIntegration ''.a{color:blue}''"
  let ?idQ = "virtualPrefix @ quotePath @ ''.vanilla.js''"
  let ?idD = "''virtual:vanilla-extract:src/a.css.ts.vanilla.js''"
  note fQ = fileScopeIdOf_quote
  have fD: "fileScopeIdOf devSession ?idD = ''src/a.css.ts''"
    by (simp add: devSession_eq fileScopeIdOf_def slice_def virtualPrefix_def toString_def)
  note T = subscription_name_unescaped [where env = ?envQ and st = quoteSession
      and fileScope = quotePath and source = "''.a{color:blue}''" and ident = ?idQ
      and css = "''.a{color:red}''" and fs = quotePath]
  have n: "broadcasts (fst (snd (serializeVirtualCssPath ?envQ quoteSession
       (quotePath, ''.a{color:blue}'')))) \<noteq> []"
    by (simp add: quoteSession_eq quoteIntegration_def example_defs)
  have s: "stringifyFileScope ?envQ quotePath = quotePath"
    by (simp add: quoteIntegration_def exampleIntegration_def)
  from T [THEN conjunct1]
  have a: "\<forall>p \<in> set (broadcasts (fst (snd (serializeVirtualCssPath ?envQ quoteSession
             (quotePath, ''.a{color:blue}''))))).
        p = \<lparr>ws_type = ''custom'', ws_event = ''vanilla-extract-style-update:'' @ quotePath,
             ws_data = ''.a{color:blue}''\<rparr>"
    by (simp only: s)
  from n a have b: "set (broadcasts (fst (snd (serializeVirtualCssPath ?envQ quoteSession
       (quotePath, ''.a{color:blue}'')))))
     = {\<lparr>ws_type = ''custom'', ws_event = ''vanilla-extract-style-update:'' @ quotePath,
         ws_data = ''.a{color:blue}''\<rparr>}"
    by (rule set_singleton)
  have q1: "prefix virtualPrefix ?idQ" by simp
  have q2: "cssMap quoteSession (fileScopeIdOf quoteSession ?idQ) = Some ''.a{color:red}''"
    by (simp add: fQ) (simp add: quoteSession_eq)
  have q3: "server quoteSession \<noteq> None" by (simp add: quoteSession_eq)
  have q4: "parseFileScope ?envQ (fileScopeIdOf quoteSession ?idQ) = Inr quotePath"
    by (simp add: fQ) (simp add: quoteIntegration_def exampleIntegration_def)
  have q5: "fileScopeIdOf quoteSession ?idQ = ''src/it'' @ CHR 0x27 # ''s/a.css.ts''"
    using fQ quotePath_split by (rule trans)
  have Q: "prefix virtualPrefix ?idQ
      \<and> cssMap quoteSession (fileScopeIdOf quoteSession ?idQ) = Some ''.a{color:red}''
      \<and> server quoteSession \<noteq> None
      \<and> parseFileScope ?envQ (fileScopeIdOf quoteSession ?idQ) = Inr quotePath"
    using q1 q2 q3 q4 by (intro conjI)
  note R = T [THEN conjunct2, THEN mp, OF Q]
  from R [THEN conjunct1]
  have l: "load ?envQ quoteSession ?idQ
       = Inr (Some (injectModuleHead (stringifyJSON ?envQ quotePath) (JSON_stringify ''.a{color:red}'')
                    @ ''import.meta.hot.on('' @ [CHR 0x27]
                    @ ''vanilla-extract-style-update:'' @ quotePath
                    @ [CHR 0x27] @ subscriptionTail))"
    by (simp only: fQ)
  have H: "fileScopeIdOf quoteSession ?idQ = ''src/it'' @ CHR 0x27 # ''s/a.css.ts'' \<and> literalSafe ''src/it''"
    using q5 literalSafe_example(1) by (intro conjI)
  note R2 = R [THEN conjunct2, THEN conjunct2, rule_format, OF H]
  from R2 [THEN conjunct1]
  have r: "singleQuoted (''vanilla-extract-style-update:'' @ quotePath @ [CHR 0x27] @ subscriptionTail)
       = Closed ''vanilla-extract-style-update:src/it'' (''s/a.css.ts'' @ [CHR 0x27] @ subscriptionTail)"
    by (simp only: fQ) simp
  from R2 [THEN conjunct2]
  have d: "''vanilla-extract-style-update:src/it'' \<noteq> ''vanilla-extract-style-update:'' @ quotePath"
    by (simp only: fQ) simp
  have d6: "literalSafe (fileScopeIdOf devSession ?idD)"
    by (simp add: fD literalSafe_example)
  have p: "singleQuoted (''vanilla-extract-style-update:'' @ fileScopeIdOf devSession ?idD
         @ [CHR 0x27] @ subscriptionTail)
       = Closed ''vanilla-extract-style-update:src/a.css.ts'' subscriptionTail"
    using singleQuoted_event_safe [OF literalSafe_example(2), of subscriptionTail]
    by (simp add: fD styleUpdateEvent_def)
  from b q1 q2 q3 q4 q5 literalSafe_example(1) l r d d6 p
  show ?thesis by (intro conjI)
qed

subsection \<open>The scope id of a module id\<close>

lemma firstOccurrence_Nil: "firstOccurrence p [] = (if p = [] then Some 0 else None)"
  by (simp add: firstOccurrence_def)

lemma firstOccurrence_Some_iff:
  "firstOccurrence p s = Some k \<longleftrightarrow>
     k \<le> length s \<and> prefix p (drop k s) \<and> (\<forall>j<k. \<not> prefix p (drop j s))"
proof (induction s arbitrary: k)
  case Nil
  then show ?case by (auto simp: firstOccurrence_Nil)
next
  case (Cons c cs)
  show ?case
  proof (cases "prefix p (c # cs)")
    case True
    then show ?thesis
      by (cases k) (auto simp: firstOccurrence_Cons)
  next
    case False
    show ?thesis
    proof (cases k)
      case 0
      with False show ?thesis by (simp add: firstOccurrence_Cons)
    next
      case (Suc k')
      with False Cons.IH [of k'] show ?thesis
        by (auto simp: firstOccurrence_Cons less_Suc_eq_0_disj)
    qed
  qed
qed

lemma firstOccurrence_None_iff:
  "firstOccurrence p s = None \<longleftrightarrow> (\<forall>j \<le> length s. \<not> prefix p (drop j s))"
  unfolding firstOccurrence_def find_None_iff
  by (auto simp: less_Suc_eq_le simp del: upt_Suc)

lemma length_virtualPrefix: "length virtualPrefix = 24"
  by (simp add: virtualPrefix_def)

lemma prefix_virtualPrefix_length: "prefix virtualPrefix ident \<Longrightarrow> 24 \<le> length ident"
  using length_virtualPrefix by (auto simp: prefix_def)

lemma fileScopeIdOf_spec:
  assumes "prefix virtualPrefix ident"
  shows "fileScopeIdOf st ident = specFileScopeId (toString (virtualExt st)) ident"
proof (cases "firstOccurrence (toString (virtualExt st)) ident")
  case None
  with prefix_virtualPrefix_length [OF assms] show ?thesis
    by (simp add: fileScopeIdOf_def specFileScopeId_def slice_def indexOf_firstOccurrence
        length_virtualPrefix butlast_conv_take Let_def nat_diff_distrib')
next
  case (Some k)
  then have "k \<le> length ident" by (simp add: firstOccurrence_Some_iff)
  with Some prefix_virtualPrefix_length [OF assms] show ?thesis
    by (simp add: fileScopeIdOf_def specFileScopeId_def slice_def indexOf_firstOccurrence
        length_virtualPrefix Let_def nat_diff_distrib')
qed

text \<open>An occurrence of a text that starts with a dot never begins inside the prefix.\<close>

lemma dot_not_in_virtualPrefix: "CHR ''.'' \<notin> set virtualPrefix"
  by (simp add: virtualPrefix_def)

lemma occurrence_after_prefix:
  assumes "prefix virtualPrefix ident" and "prefix (CHR ''.'' # e) (drop k ident)"
  shows "24 \<le> k"
proof (rule ccontr)
  assume "\<not> 24 \<le> k"
  then have k: "k < length virtualPrefix" by (simp add: length_virtualPrefix)
  from assms(1) obtain r where r: "ident = virtualPrefix @ r" by (auto simp: prefix_def)
  from k have "drop k ident = (virtualPrefix ! k) # drop (Suc k) virtualPrefix @ r"
    by (simp add: r Cons_nth_drop_Suc)
  with assms(2) have "virtualPrefix ! k = CHR ''.''" by simp
  with k dot_not_in_virtualPrefix show False by (metis nth_mem)
qed

lemma fileScopeIdOf_between:
  assumes "prefix virtualPrefix ident" and "virtualExt st = Some (CHR ''.'' # e)"
    and "firstOccurrence (CHR ''.'' # e) ident = Some k"
  shows "ident = virtualPrefix @ fileScopeIdOf st ident @ (CHR ''.'' # e) @ drop (k + length (CHR ''.'' # e)) ident"
proof -
  let ?ext = "CHR ''.'' # e"
  from assms(3) have k: "k \<le> length ident" "prefix ?ext (drop k ident)"
    by (simp_all add: firstOccurrence_Some_iff)
  from occurrence_after_prefix [OF assms(1) k(2)] have k24: "24 \<le> k" .
  from assms(1) obtain r where r: "ident = virtualPrefix @ r" by (auto simp: prefix_def)
  have f: "fileScopeIdOf st ident = take (k - 24) (drop 24 ident)"
    using assms(2,3) by (simp add: fileScopeIdOf_spec [OF assms(1)] specFileScopeId_def
        toString_def length_virtualPrefix)
  from k(2) obtain post where post: "drop k ident = ?ext @ post" by (auto simp: prefix_def)
  then have post': "post = drop (k + length ?ext) ident"
    by (metis append_eq_conv_conj drop_drop add.commute)
  have "ident = take 24 ident @ take (k - 24) (drop 24 ident) @ drop k ident"
    using k24 k(1) by (metis append_take_drop_id drop_drop le_add_diff_inverse2 add.commute)
  moreover have "take 24 ident = virtualPrefix"
    using r length_virtualPrefix by simp
  ultimately show ?thesis
    using f post post' by metis
qed

text \<open>
  Claim C10. For every id that starts with the reserved prefix, the scope id \<open>load\<close> works
  with is the text between the end of the prefix and the first occurrence of the virtual
  extension anywhere in the id; when the extension does not occur in the id, it is what
  follows the prefix with its last character removed (\<open>slice\<close> with end index \<open>-1\<close>). The
  registry lookup, the error message and the returned module all use that text. With a
  configured extension (it starts with a dot) the first occurrence lies behind the
  prefix, so the id is the prefix, the scope id, the extension and a rest.
\<close>

theorem load_extracts_scope_id:
  assumes "prefix virtualPrefix ident"
  shows "fileScopeIdOf st ident = specFileScopeId (toString (virtualExt st)) ident
    \<and> load env st ident =
        (let f = specFileScopeId (toString (virtualExt st)) ident
         in case cssMap st f of
              None \<Rightarrow> Inl (Error (''Unable to locate '' @ f @ '' in the CSS map.''))
            | Some css \<Rightarrow>
                (case server st of
                   None \<Rightarrow> Inr (Some css)
                 | Some srv \<Rightarrow>
                     (case parseFileScope env f of
                        Inl e \<Rightarrow> Inl e
                      | Inr fileScope \<Rightarrow>
                          Inr (Some (injectModule (stringifyJSON env fileScope)
                                       (JSON_stringify css) (styleUpdateEvent f))))))
    \<and> (\<forall>e k. virtualExt st = Some (CHR ''.'' # e)
               \<and> firstOccurrence (CHR ''.'' # e) ident = Some k
          \<longrightarrow> ident = virtualPrefix @ fileScopeIdOf st ident @ (CHR ''.'' # e)
                          @ drop (k + length (CHR ''.'' # e)) ident)"
proof (intro conjI allI impI)
  show "fileScopeIdOf st ident = specFileScopeId (toString (virtualExt st)) ident"
    by (rule fileScopeIdOf_spec [OF assms])
next
  from assms show "load env st ident =
        (let f = specFileScopeId (toString (virtualExt st)) ident
         in case cssMap st f of
              None \<Rightarrow> Inl (Error (''Unable to locate '' @ f @ '' in the CSS map.''))
            | Some css \<Rightarrow>
                (case server st of
                   None \<Rightarrow> Inr (Some css)
                 | Some srv \<Rightarrow>
                     (case parseFileScope env f of
                        Inl e \<Rightarrow> Inl e
                      | Inr fileScope \<Rightarrow>
                          Inr (Some (injectModule (stringifyJSON env fileScope)
                                       (JSON_stringify css) (styleUpdateEvent f))))))"
    by (simp add: load_def indexOf_zero_iff fileScopeIdOf_spec [OF assms])
next
  fix e k
  assume "virtualExt st = Some (CHR ''.'' # e) \<and> firstOccurrence (CHR ''.'' # e) ident = Some k"
  then show "ident = virtualPrefix @ fileScopeIdOf st ident @ (CHR ''.'' # e)
                          @ drop (k + length (CHR ''.'' # e)) ident"
    using fileScopeIdOf_between [OF assms] by blast
qed

lemma firstOccurrence_example1:
  "firstOccurrence ''.vanilla.js'' ''virtual:vanilla-extract:src/a.css.ts.vanilla.js?v=1'' = Some 36"
  by (simp add: firstOccurrence_Cons)

lemma firstOccurrence_example2:
  "firstOccurrence ''.vanilla.js'' ''virtual:vanilla-extract:src/a.css.ts'' = None"
  by (simp add: firstOccurrence_Cons firstOccurrence_Nil)

theorem load_extracts_scope_id_witness:
  "prefix virtualPrefix ''virtual:vanilla-extract:src/a.css.ts.vanilla.js?v=1''
   \<and> virtualExt devSession = Some ''.vanilla.js''
   \<and> firstOccurrence ''.vanilla.js'' ''virtual:vanilla-extract:src/a.css.ts.vanilla.js?v=1'' = Some 36
   \<and> fileScopeIdOf devSession ''virtual:vanilla-extract:src/a.css.ts.vanilla.js?v=1'' = ''src/a.css.ts''
   \<and> ''virtual:vanilla-extract:src/a.css.ts.vanilla.js?v=1''
       = virtualPrefix
         @ fileScopeIdOf devSession ''virtual:vanilla-extract:src/a.css.ts.vanilla.js?v=1''
         @ ''.vanilla.js'' @ ''?v=1''
   \<and> prefix virtualPrefix ''virtual:vanilla-extract:src/a.css.ts''
   \<and> firstOccurrence ''.vanilla.js'' ''virtual:vanilla-extract:src/a.css.ts'' = None
   \<and> fileScopeIdOf devSession ''virtual:vanilla-extract:src/a.css.ts'' = ''src/a.css.t''
   \<and> load (exampleIntegration ''.a{color:red}'') devSession ''virtual:vanilla-extract:src/a.css.ts''
       = Inl (Error ''Unable to locate src/a.css.t in the CSS map.'')"
proof -
  let ?env = "exampleIntegration ''.a{color:red}''"
  let ?id1 = "''virtual:vanilla-extract:src/a.css.ts.vanilla.js?v=1''"
  let ?id2 = "''virtual:vanilla-extract:src/a.css.ts''"
  have v: "virtualExt devSession = Some ''.vanilla.js''" by (simp add: devSession_eq)
  have h1: "prefix virtualPrefix ?id1" by (simp add: virtualPrefix_def)
  have h2: "prefix virtualPrefix ?id2" by (simp add: virtualPrefix_def)
  note T1 = load_extracts_scope_id [OF h1, where st = devSession and env = ?env]
  note T2 = load_extracts_scope_id [OF h2, where st = devSession and env = ?env]
  from T1 [THEN conjunct1]
  have f1: "fileScopeIdOf devSession ?id1 = ''src/a.css.ts''"
    by (simp add: v toString_def specFileScopeId_def firstOccurrence_example1 length_virtualPrefix)
  from T1 [THEN conjunct2, THEN conjunct2, rule_format, of "''vanilla.js''" 36]
  have b1: "?id1 = virtualPrefix @ fileScopeIdOf devSession ?id1 @ ''.vanilla.js'' @ ''?v=1''"
    using v firstOccurrence_example1 by simp
  from T2 [THEN conjunct1]
  have f2: "fileScopeIdOf devSession ?id2 = ''src/a.css.t''"
    by (simp add: v toString_def specFileScopeId_def firstOccurrence_example2 length_virtualPrefix)
  have s2: "specFileScopeId (toString (virtualExt devSession)) ?id2 = ''src/a.css.t''"
    using T2 [THEN conjunct1] f2 by simp
  have c: "cssMap devSession ''src/a.css.t'' = None" by (simp add: devSession_eq)
  from T2 [THEN conjunct2, THEN conjunct1]
  have l2: "load ?env devSession ?id2 = Inl (Error ''Unable to locate src/a.css.t in the CSS map.'')"
    by (simp add: s2 c)
  from h1 v firstOccurrence_example1 f1 b1 h2 firstOccurrence_example2 f2 l2
  show ?thesis by (intro conjI)
qed

subsection \<open>The registry\<close>

lemma serializeVirtualCssPath_state:
  "fst (serializeVirtualCssPath env st (fileScope, source))
     = st\<lparr>cssMap := (cssMap st)(stringifyFileScope env fileScope \<mapsto> source)\<rparr>"
  by (simp add: serializeVirtualCssPath_def Let_def)

lemma serializeAll_state:
  "fst (serializeAll env st frags)
     = st\<lparr>cssMap := cssMap st ++
           map_of (rev (map (\<lambda>(fileScope, source). (stringifyFileScope env fileScope, source)) frags))\<rparr>"
proof (induction frags arbitrary: st)
  case Nil
  then show ?case by simp
next
  case (Cons frag frags)
  obtain fileScope source where frag: "frag = (fileScope, source)" by (cases frag)
  have "fst (serializeAll env st (frag # frags))
      = fst (serializeAll env (fst (serializeVirtualCssPath env st frag)) frags)"
    by (simp split: prod.splits)
  then show ?case
    by (simp add: Cons.IH frag serializeVirtualCssPath_state map_add_upd_left map_add_def
        fun_eq_iff split: option.splits)
qed

lemma serializeAll_watched: "watched (fst (snd (serializeAll env st frags))) = []"
proof (induction frags arbitrary: st)
  case Nil
  then show ?case by simp
next
  case (Cons frag frags)
  obtain fileScope source where frag: "frag = (fileScope, source)" by (cases frag)
  have w1: "watched (fst (snd (serializeVirtualCssPath env st frag)) @ es) = watched es" for es
    by (auto simp: frag serializeVirtualCssPath_def Let_def split: option.splits)
  show ?case
    using Cons.IH [of "fst (serializeVirtualCssPath env st frag)"]
    by (simp add: w1 split: prod.splits) (metis w1 fst_conv snd_conv)
qed

lemma watched_watchLoop:
  "watched (watchLoop cfg ident files @ es)
     = filter (\<lambda>file. command cfg = Build \<or> file \<noteq> ident) files @ watched es"
  by (induction files) auto

lemma transform_client:
  assumes "cssFileFilter env ident" and "config st = Some cfg"
    and "compile env (validIdOf ident) (root cfg) = Inr (source, watchFiles)"
  shows "transform env st code ident False =
     (case serializeAll env st (cssFragments env source (validIdOf ident) (identOptionOf st cfg)) of
        (st', effs, imports) \<Rightarrow>
          (st',
           [Compile (validIdOf ident) (root cfg)] @ watchLoop cfg ident watchFiles @ effs,
           map_sum id Some (finalize env source (validIdOf ident) (identOptionOf st cfg) imports)))"
  using assms by (simp add: transform_def Let_def)

lemma transform_state_cases:
  "fst (transform env st code ident ssr) = st
   \<or> (\<exists>frags. fst (transform env st code ident ssr) = fst (serializeAll env st frags))"
proof (cases "cssFileFilter env ident \<and> \<not> ssr")
  case False
  then have "fst (transform env st code ident ssr) = st"
    by (auto simp: transform_def Let_def split: option.splits)
  then show ?thesis ..
next
  case True
  show ?thesis
  proof (cases "config st")
    case None
    with True have "fst (transform env st code ident ssr) = st"
      by (simp add: transform_def Let_def)
    then show ?thesis ..
  next
    case (Some cfg)
    show ?thesis
    proof (cases "compile env (validIdOf ident) (root cfg)")
      case (Inl e)
      with True Some have "fst (transform env st code ident ssr) = st"
        by (simp add: transform_def Let_def)
      then show ?thesis ..
    next
      case (Inr r)
      obtain source watchFiles where r: "r = (source, watchFiles)" by (cases r)
      from True Some Inr r
      have "fst (transform env st code ident ssr)
          = fst (serializeAll env st (cssFragments env source (validIdOf ident) (identOptionOf st cfg)))"
        by (simp add: transform_client split: prod.splits)
      then show ?thesis by blast
    qed
  qed
qed

lemma transform_state:
  "\<exists>m. fst (transform env st code ident ssr) = st\<lparr>cssMap := cssMap st ++ m\<rparr>"
proof -
  from transform_state_cases [of env st code ident ssr]
  show ?thesis
  proof
    assume "fst (transform env st code ident ssr) = st"
    then show ?thesis by (intro exI [of _ Map.empty]) simp
  next
    assume "\<exists>frags. fst (transform env st code ident ssr) = fst (serializeAll env st frags)"
    then show ?thesis by (auto simp: serializeAll_state)
  qed
qed

lemma runHook_cssMap: "dom (cssMap st) \<subseteq> dom (cssMap (runHook env st h))"
proof (cases h)
  case (Transform code ident ssr)
  from transform_state [of env st code ident ssr]
  obtain m where "fst (transform env st code ident ssr) = st\<lparr>cssMap := cssMap st ++ m\<rparr>" ..
  with Transform show ?thesis by auto
qed (simp_all add: configureServer_def configResolved_def)

lemma runHooks_cssMap: "dom (cssMap st) \<subseteq> dom (cssMap (runHooks env st hs))"
proof (induction hs arbitrary: st)
  case Nil
  then show ?case by simp
next
  case (Cons h hs)
  have "dom (cssMap st) \<subseteq> dom (cssMap (runHook env st h))"
    by (rule runHook_cssMap)
  also have "\<dots> \<subseteq> dom (cssMap (runHooks env (runHook env st h) hs))"
    by (rule Cons.IH)
  finally show ?case by simp
qed

lemma runHook_virtualExt:
  "(\<forall>cfg. h \<noteq> ConfigResolved cfg) \<Longrightarrow> virtualExt (runHook env st h) = virtualExt st"
proof (cases h)
  case (Transform code ident ssr)
  from transform_state [of env st code ident ssr]
  obtain m where "fst (transform env st code ident ssr) = st\<lparr>cssMap := cssMap st ++ m\<rparr>" ..
  with Transform show ?thesis by simp
qed (simp_all add: configureServer_def)

text \<open>
  Claim C8. The registry only grows: after any sequence of hook calls every scope id
  that had an entry still has one. Each call of the callback writes the entry of its
  scope id, whatever was stored before, and after a compile in client context the
  registry is the old one overwritten with the compiled fragments, the later fragment
  winning where two have the same scope id.
\<close>

theorem registry_monotone:
  "dom (cssMap st) \<subseteq> dom (cssMap (runHooks env st hs))
   \<and> cssMap (fst (serializeVirtualCssPath env st (fileScope, source)))
       = (cssMap st)(stringifyFileScope env fileScope \<mapsto> source)
   \<and> (cssFileFilter env ident \<and> config st = Some cfg
        \<and> compile env (validIdOf ident) (root cfg) = Inr (js, watchFiles)
      \<longrightarrow> cssMap (fst (transform env st code ident False))
          = cssMap st ++ map_of (rev (map (\<lambda>(fileScope, css). (stringifyFileScope env fileScope, css))
                (cssFragments env js (validIdOf ident) (identOptionOf st cfg)))))"
proof (intro conjI impI)
  show "dom (cssMap st) \<subseteq> dom (cssMap (runHooks env st hs))"
    by (rule runHooks_cssMap)
next
  show "cssMap (fst (serializeVirtualCssPath env st (fileScope, source)))
       = (cssMap st)(stringifyFileScope env fileScope \<mapsto> source)"
    by (simp add: serializeVirtualCssPath_state)
next
  assume a: "cssFileFilter env ident \<and> config st = Some cfg
        \<and> compile env (validIdOf ident) (root cfg) = Inr (js, watchFiles)"
  then have "fst (transform env st code ident False)
      = fst (serializeAll env st (cssFragments env js (validIdOf ident) (identOptionOf st cfg)))"
    by (simp add: transform_client split: prod.splits)
  then show "cssMap (fst (transform env st code ident False))
          = cssMap st ++ map_of (rev (map (\<lambda>(fileScope, css). (stringifyFileScope env fileScope, css))
                (cssFragments env js (validIdOf ident) (identOptionOf st cfg))))"
    by (simp add: serializeAll_state)
qed

lemma validIdOf_example: "validIdOf ''src/a.css.ts'' = ''src/a.css.ts''"
  by (simp add: validIdOf_def)

lemma validIdOf_example_query: "validIdOf ''src/a.css.ts?used'' = ''src/a.css.ts''"
  by (simp add: validIdOf_def substring_def)

theorem registry_monotone_witness:
  "''src/a.css.ts'' \<in> dom (cssMap devSession)
   \<and> dom (cssMap devSession)
       \<subseteq> dom (cssMap (runHooks (exampleIntegration ''.a{color:blue}'') devSession
                [Load ''virtual:vanilla-extract:src/a.css.ts.vanilla.js'',
                 Transform ''source text'' ''src/b.css.ts'' False,
                 Transform ''source text'' ''src/a.css.ts'' True,
                 ConfigResolved buildConfig, ResolveId ''src/a.css.ts'']))
   \<and> cssMap (fst (serializeVirtualCssPath (exampleIntegration ''.a{color:blue}'') devSession
         (''src/b.css.ts'', ''.b{}''))) ''src/b.css.ts'' = Some ''.b{}''
   \<and> cssFileFilter (exampleIntegration ''.a{color:blue}'') ''src/a.css.ts''
   \<and> config devSession = Some serveConfig
   \<and> compile (exampleIntegration ''.a{color:blue}'') (validIdOf ''src/a.css.ts'') (root serveConfig)
       = Inr (''export const a = 1;'', [''src/a.css.ts'', ''src/vars.css.ts''])
   \<and> cssMap (fst (transform (exampleIntegration ''.a{color:blue}'') devSession ''source text''
         ''src/a.css.ts'' False)) ''src/a.css.ts'' = Some ''.a{color:blue}''"
proof -
  let ?env = "exampleIntegration ''.a{color:blue}''"
  note T = registry_monotone [where env = ?env and st = devSession]
  have m: "''src/a.css.ts'' \<in> dom (cssMap devSession)" by (simp add: devSession_eq)
  note mono = T [THEN conjunct1, of "[Load ''virtual:vanilla-extract:src/a.css.ts.vanilla.js'',
                 Transform ''source text'' ''src/b.css.ts'' False,
                 Transform ''source text'' ''src/a.css.ts'' True,
                 ConfigResolved buildConfig, ResolveId ''src/a.css.ts'']"]
  from T [THEN conjunct2, THEN conjunct1, of "''src/b.css.ts''" "''.b{}''"]
  have w: "cssMap (fst (serializeVirtualCssPath ?env devSession (''src/b.css.ts'', ''.b{}'')))
      ''src/b.css.ts'' = Some ''.b{}''"
    by (simp add: exampleIntegration_def)
  have h1: "cssFileFilter ?env ''src/a.css.ts''" by (simp add: exampleIntegration_def)
  have h2: "config devSession = Some serveConfig" by (simp add: devSession_eq)
  have h3: "compile ?env (validIdOf ''src/a.css.ts'') (root serveConfig)
       = Inr (''export const a = 1;'', [''src/a.css.ts'', ''src/vars.css.ts''])"
    by (simp add: validIdOf_example) (simp add: exampleIntegration_def)
  have H: "cssFileFilter ?env ''src/a.css.ts'' \<and> config devSession = Some serveConfig
      \<and> compile ?env (validIdOf ''src/a.css.ts'') (root serveConfig)
          = Inr (''export const a = 1;'', [''src/a.css.ts'', ''src/vars.css.ts''])"
    using h1 h2 h3 by (intro conjI)
  from T [THEN conjunct2, THEN conjunct2, THEN mp, OF H, of "''source text''"]
  have t: "cssMap (fst (transform ?env devSession ''source text'' ''src/a.css.ts'' False))
      ''src/a.css.ts'' = Some ''.a{color:blue}''"
    by (simp add: validIdOf_example) (simp add: exampleIntegration_def)
  from m mono w h1 h2 h3 t show ?thesis by (intro conjI)
qed

subsection \<open>Watch registration\<close>

lemma validIdOf_query:
  assumes "CHR ''?'' \<in> set ident"
  shows "\<exists>q. ident = validIdOf ident @ ''?'' @ q"
proof -
  from assms obtain j where j: "j < length ident" "ident ! j = CHR ''?''"
    by (auto simp: in_set_conv_nth)
  then have "prefix ''?'' (drop j ident)"
    by (simp add: Cons_nth_drop_Suc [symmetric])
  with j(1) have "firstOccurrence ''?'' ident \<noteq> None"
    unfolding firstOccurrence_None_iff using less_imp_le by blast
  then obtain k where k: "firstOccurrence ''?'' ident = Some k" by auto
  then have p: "prefix ''?'' (drop k ident)" by (simp add: firstOccurrence_Some_iff)
  then have kl: "k < length ident" by (cases "k < length ident") auto
  from p obtain q where q: "drop k ident = ''?'' @ q" by (auto simp: prefix_def)
  from k kl have v: "validIdOf ident = take k ident"
    by (simp add: validIdOf_def Let_def indexOf_firstOccurrence substring_def)
  have "ident = take k ident @ drop k ident" by simp
  with q v have "ident = validIdOf ident @ ''?'' @ q" by simp
  then show ?thesis ..
qed

lemma validIdOf_query_neq: "CHR ''?'' \<in> set ident \<Longrightarrow> validIdOf ident \<noteq> ident"
  using validIdOf_query [of ident] by (metis append_self_conv append_is_Nil_conv list.distinct(1))

text \<open>
  Claim C4. In a client-context transform the paths registered for watching are the
  paths \<open>file\<close> of \<open>watchFiles\<close> with \<open>config.command === 'build' || file !== id\<close>, in
  order. With the command \<open>build\<close> that is every path. With the command \<open>serve\<close> a path
  is skipped only when it equals the module id as a whole: for an id with a query the
  compiled file \<open>validId\<close> differs from the id, and when the compiler reports it, the
  file that is being transformed is registered as its own watch target.
\<close>

theorem watch_registers_file_itself:
  assumes "cssFileFilter env ident" and "config st = Some cfg"
    and "compile env (validIdOf ident) (root cfg) = Inr (js, watchFiles)"
  shows "watched (fst (snd (transform env st code ident False)))
           = filter (\<lambda>file. command cfg = Build \<or> file \<noteq> ident) watchFiles
    \<and> (CHR ''?'' \<in> set ident \<and> validIdOf ident \<in> set watchFiles
        \<longrightarrow> validIdOf ident \<in> set (watched (fst (snd (transform env st code ident False)))))"
proof -
  obtain st' effs imps where
    s: "serializeAll env st (cssFragments env js (validIdOf ident) (identOptionOf st cfg))
          = (st', effs, imps)"
    by (cases "serializeAll env st (cssFragments env js (validIdOf ident) (identOptionOf st cfg))")
  from serializeAll_watched [of env st "cssFragments env js (validIdOf ident) (identOptionOf st cfg)"]
  have e: "watched effs = []" by (simp add: s)
  have w: "watched (fst (snd (transform env st code ident False)))
           = filter (\<lambda>file. command cfg = Build \<or> file \<noteq> ident) watchFiles"
    by (simp add: transform_client [OF assms] s watched_watchLoop e)
  then show ?thesis using validIdOf_query_neq [of ident] by auto
qed

theorem watch_registers_file_itself_witness:
  "cssFileFilter (exampleIntegration ''.a{color:red}'') ''src/a.css.ts?used''
   \<and> config devSession = Some serveConfig
   \<and> command serveConfig = Serve
   \<and> compile (exampleIntegration ''.a{color:red}'') (validIdOf ''src/a.css.ts?used'') (root serveConfig)
       = Inr (''export const a = 1;'', [''src/a.css.ts'', ''src/vars.css.ts''])
   \<and> validIdOf ''src/a.css.ts?used'' = ''src/a.css.ts''
   \<and> watched (fst (snd (transform (exampleIntegration ''.a{color:red}'') devSession ''source text''
         ''src/a.css.ts?used'' False))) = [''src/a.css.ts'', ''src/vars.css.ts'']
   \<and> watched (fst (snd (transform (exampleIntegration ''.a{color:red}'') devSession ''source text''
         ''src/a.css.ts'' False))) = [''src/vars.css.ts'']
   \<and> watched (fst (snd (transform (exampleIntegration ''.a{color:red}'') buildSession ''source text''
         ''src/a.css.ts'' False))) = [''src/a.css.ts'', ''src/vars.css.ts'']"
proof -
  let ?env = "exampleIntegration ''.a{color:red}''"
  have h1: "cssFileFilter ?env ''src/a.css.ts?used''" by (simp add: exampleIntegration_def)
  have h1': "cssFileFilter ?env ''src/a.css.ts''" by (simp add: exampleIntegration_def)
  have h2: "config devSession = Some serveConfig" by (simp add: devSession_eq)
  have c: "command serveConfig = Serve" by (simp add: serveConfig_def)
  have h3: "compile ?env (validIdOf ''src/a.css.ts?used'') (root serveConfig)
       = Inr (''export const a = 1;'', [''src/a.css.ts'', ''src/vars.css.ts''])"
    by (simp add: validIdOf_example_query) (simp add: exampleIntegration_def)
  have h3': "compile ?env (validIdOf ''src/a.css.ts'') (root serveConfig)
       = Inr (''export const a = 1;'', [''src/a.css.ts'', ''src/vars.css.ts''])"
    by (simp add: validIdOf_example) (simp add: exampleIntegration_def)
  from watch_registers_file_itself [OF h1 h2 h3, THEN conjunct1, of "''source text''"]
  have w: "watched (fst (snd (transform ?env devSession ''source text'' ''src/a.css.ts?used'' False)))
      = [''src/a.css.ts'', ''src/vars.css.ts'']"
    by (simp add: c)
  from watch_registers_file_itself [OF h1' h2 h3', THEN conjunct1, of "''source text''"]
  have w': "watched (fst (snd (transform ?env devSession ''source text'' ''src/a.css.ts'' False)))
      = [''src/vars.css.ts'']"
    by (simp add: c)
  have b2: "config buildSession = Some buildConfig" by (simp add: buildSession_eq)
  have b3: "compile ?env (validIdOf ''src/a.css.ts'') (root buildConfig)
       = Inr (''export const a = 1;'', [''src/a.css.ts'', ''src/vars.css.ts''])"
    by (simp add: validIdOf_example) (simp add: exampleIntegration_def)
  from watch_registers_file_itself [OF h1' b2 b3, THEN conjunct1, of "''source text''"]
  have wb: "watched (fst (snd (transform ?env buildSession ''source text'' ''src/a.css.ts'' False)))
      = [''src/a.css.ts'', ''src/vars.css.ts'']"
    by (simp add: buildConfig_def)
  from h1 h2 c h3 validIdOf_example_query w w' wb show ?thesis by (intro conjI)
qed

subsection \<open>The virtual module id\<close>

lemma firstOccurrence_behind:
  "c \<notin> set pre \<Longrightarrow>
   firstOccurrence (c # e) (pre @ s) = map_option (\<lambda>k. length pre + k) (firstOccurrence (c # e) s)"
  by (induction pre) (cases "firstOccurrence (c # e) s"; auto simp: firstOccurrence_Cons)+

lemma fileScopeIdOf_emitted:
  assumes "virtualExt st = Some (CHR ''.'' # e)"
    and "firstOccurrence (CHR ''.'' # e) (f @ CHR ''.'' # e) = Some (length f)"
  shows "fileScopeIdOf st (virtualPrefix @ f @ CHR ''.'' # e) = f"
proof -
  have "prefix virtualPrefix (virtualPrefix @ f @ CHR ''.'' # e)" by simp
  from fileScopeIdOf_spec [OF this, of st] assms show ?thesis
    by (simp add: toString_def specFileScopeId_def
        firstOccurrence_behind [OF dot_not_in_virtualPrefix])
qed

text \<open>
  Claim C5, amended. The extension of the virtual module id is \<open>.vanilla.js\<close> when the
  resolved configuration's command is \<open>serve\<close> and \<open>.vanilla.css\<close> otherwise. It is
  assigned by \<open>configResolved\<close> and no other hook changes it. The import statement the
  callback emits for a scope id \<open>f\<close> names \<open>virtual:vanilla-extract:<f><ext>\<close>;
  \<open>resolveId\<close> claims that id, and \<open>load\<close> reads \<open>f\<close> back from it when the extension
  does not occur in \<open><f><ext>\<close> before its end.
\<close>

theorem virtual_id_format:
  "virtualExt (configResolved env st cfg)
     = Some (if command cfg = Serve then ''.vanilla.js'' else ''.vanilla.css'')
   \<and> ((\<forall>c. h \<noteq> ConfigResolved c) \<longrightarrow> virtualExt (runHook env st h) = virtualExt st)
   \<and> (virtualExt st = Some ext \<longrightarrow>
        snd (snd (serializeVirtualCssPath env st (fileScope, source)))
          = ''import '' @ [CHR 0x22] @ virtualPrefix @ stringifyFileScope env fileScope @ ext
              @ [CHR 0x22] @ '';''
        \<and> resolveId (virtualPrefix @ f @ ext) = Some (virtualPrefix @ f @ ext)
        \<and> (hd ext = CHR ''.'' \<and> ext \<noteq> [] \<and> firstOccurrence ext (f @ ext) = Some (length f)
            \<longrightarrow> fileScopeIdOf st (virtualPrefix @ f @ ext) = f))"
proof (intro conjI impI)
  show "virtualExt (configResolved env st cfg)
     = Some (if command cfg = Serve then ''.vanilla.js'' else ''.vanilla.css'')"
    by (simp add: configResolved_def)
next
  assume "\<forall>c. h \<noteq> ConfigResolved c"
  then show "virtualExt (runHook env st h) = virtualExt st"
    by (rule runHook_virtualExt)
next
  assume "virtualExt st = Some ext"
  then show "snd (snd (serializeVirtualCssPath env st (fileScope, source)))
          = ''import '' @ [CHR 0x22] @ virtualPrefix @ stringifyFileScope env fileScope @ ext
              @ [CHR 0x22] @ '';''"
    by (simp add: serializeVirtualCssPath_def Let_def toString_def)
next
  show "resolveId (virtualPrefix @ f @ ext) = Some (virtualPrefix @ f @ ext)"
    by (simp add: resolveId_def indexOf_zero_iff)
next
  assume v: "virtualExt st = Some ext"
    and a: "hd ext = CHR ''.'' \<and> ext \<noteq> [] \<and> firstOccurrence ext (f @ ext) = Some (length f)"
  then obtain e where e: "ext = CHR ''.'' # e" by (cases ext) auto
  from v a show "fileScopeIdOf st (virtualPrefix @ f @ ext) = f"
    unfolding e by (intro fileScopeIdOf_emitted) simp_all
qed

text \<open>
  Claim C5 as the specification states it: the extension is \<open>.js\<close> while a dev server is
  attached and \<open>.css\<close> otherwise. Neither in the build nor in the dev session is the
  emitted import the one of that id.
\<close>

theorem virtual_id_format_counterexample:
  "snd (snd (serializeVirtualCssPath (exampleIntegration ''.a{color:red}'') buildSession
        (''src/a.css.ts'', ''.a{color:red}'')))
     \<noteq> ''import '' @ [CHR 0x22] @ specVirtualId buildSession ''src/a.css.ts'' @ [CHR 0x22] @ '';''
   \<and> snd (snd (serializeVirtualCssPath (exampleIntegration ''.a{color:red}'') devSession
        (''src/a.css.ts'', ''.a{color:red}'')))
     \<noteq> ''import '' @ [CHR 0x22] @ specVirtualId devSession ''src/a.css.ts'' @ [CHR 0x22] @ '';''"
  by (simp add: buildSession_eq devSession_eq specVirtualId_def example_defs)

lemma firstOccurrence_example3:
  "firstOccurrence ''.vanilla.css'' (''src/a.css.ts'' @ ''.vanilla.css'') = Some (length ''src/a.css.ts'')"
  by (simp add: firstOccurrence_Cons)

theorem virtual_id_format_witness:
  "virtualExt (configResolved (exampleIntegration ''.a{color:red}'') (vanillaExtractPlugin None) serveConfig)
     = Some ''.vanilla.js''
   \<and> virtualExt (configResolved (exampleIntegration ''.a{color:red}'') (vanillaExtractPlugin None) buildConfig)
     = Some ''.vanilla.css''
   \<and> virtualExt (runHook (exampleIntegration ''.a{color:blue}'') buildSession
        (Transform ''source text'' ''src/a.css.ts'' False)) = Some ''.vanilla.css''
   \<and> virtualExt buildSession = Some ''.vanilla.css''
   \<and> snd (snd (serializeVirtualCssPath (exampleIntegration ''.a{color:red}'') buildSession
        (''src/a.css.ts'', ''.a{color:red}'')))
       = ''import '' @ [CHR 0x22] @ ''virtual:vanilla-extract:src/a.css.ts.vanilla.css'' @ [CHR 0x22] @ '';''
   \<and> resolveId ''virtual:vanilla-extract:src/a.css.ts.vanilla.css''
       = Some ''virtual:vanilla-extract:src/a.css.ts.vanilla.css''
   \<and> firstOccurrence ''.vanilla.css'' (''src/a.css.ts'' @ ''.vanilla.css'') = Some (length ''src/a.css.ts'')
   \<and> fileScopeIdOf buildSession ''virtual:vanilla-extract:src/a.css.ts.vanilla.css'' = ''src/a.css.ts''"
proof -
  let ?env = "exampleIntegration ''.a{color:red}''"
  let ?env2 = "exampleIntegration ''.a{color:blue}''"
  have v: "virtualExt buildSession = Some ''.vanilla.css''" by (simp add: buildSession_eq)
  from virtual_id_format [where env = ?env and st = "vanillaExtractPlugin None" and cfg = serveConfig,
      THEN conjunct1]
  have a1: "virtualExt (configResolved ?env (vanillaExtractPlugin None) serveConfig) = Some ''.vanilla.js''"
    by (simp add: serveConfig_def)
  from virtual_id_format [where env = ?env and st = "vanillaExtractPlugin None" and cfg = buildConfig,
      THEN conjunct1]
  have a2: "virtualExt (configResolved ?env (vanillaExtractPlugin None) buildConfig) = Some ''.vanilla.css''"
    by (simp add: buildConfig_def)
  from virtual_id_format [where env = ?env2 and st = buildSession
      and h = "Transform ''source text'' ''src/a.css.ts'' False", THEN conjunct2, THEN conjunct1]
  have b: "virtualExt (runHook ?env2 buildSession (Transform ''source text'' ''src/a.css.ts'' False))
      = Some ''.vanilla.css''"
    by (simp add: v)
  note C = virtual_id_format [where env = ?env and st = buildSession and ext = "''.vanilla.css''"
      and fileScope = "''src/a.css.ts''" and source = "''.a{color:red}''" and f = "''src/a.css.ts''",
      THEN conjunct2, THEN conjunct2, THEN mp, OF v]
  from C [THEN conjunct1]
  have c1: "snd (snd (serializeVirtualCssPath ?env buildSession (''src/a.css.ts'', ''.a{color:red}'')))
       = ''import '' @ [CHR 0x22] @ ''virtual:vanilla-extract:src/a.css.ts.vanilla.css'' @ [CHR 0x22] @ '';''"
    by (simp add: exampleIntegration_def virtualPrefix_def)
  from C [THEN conjunct2, THEN conjunct1]
  have c2: "resolveId ''virtual:vanilla-extract:src/a.css.ts.vanilla.css''
       = Some ''virtual:vanilla-extract:src/a.css.ts.vanilla.css''"
    by (simp add: virtualPrefix_def)
  have H: "hd ''.vanilla.css'' = CHR ''.'' \<and> ''.vanilla.css'' \<noteq> []
      \<and> firstOccurrence ''.vanilla.css'' (''src/a.css.ts'' @ ''.vanilla.css'') = Some (length ''src/a.css.ts'')"
    using firstOccurrence_example3 by simp
  from C [THEN conjunct2, THEN conjunct2, THEN mp, OF H]
  have c3: "fileScopeIdOf buildSession ''virtual:vanilla-extract:src/a.css.ts.vanilla.css'' = ''src/a.css.ts''"
    by (simp add: virtualPrefix_def)
  from a1 a2 b v c1 c2 firstOccurrence_example3 c3 show ?thesis by (intro conjI)
qed

end
